theory Spec2Isabelle
  imports Complex_Main
begin

unbundle bit_operations_syntax

section \<open>Python values, dictionaries and exceptions\<close>

text \<open>
  A shallow embedding of \<^verbatim>\<open>kdp/processor.py\<close>. Python dictionaries keep insertion
  order, and the code depends on it, so a dictionary is an association list with
  distinct keys; assigning to an existing key replaces the value in place and a new
  key goes to the end.
\<close>

datatype DType = DType string

definition tf_string :: DType where
  "tf_string = DType ''string''"

definition tf_float32 :: DType where
  "tf_float32 = DType ''float32''"

fun dtype_name :: "DType \<Rightarrow> string" where
  "dtype_name (DType n) = n"

datatype pyval =
    PNone
  | PBool bool
  | PInt int
  | PFloat real
  | PStr string
  | PList "pyval list"
  | PDict "(string \<times> pyval) list"
  | PDTypeV DType

fun dict_get :: "('k \<times> 'v) list \<Rightarrow> 'k \<Rightarrow> 'v option" where
  "dict_get [] k = None"
| "dict_get ((k', v) # d) k = (if k' = k then Some v else dict_get d k)"

fun dict_set :: "('k \<times> 'v) list \<Rightarrow> 'k \<Rightarrow> 'v \<Rightarrow> ('k \<times> 'v) list" where
  "dict_set [] k v = [(k, v)]"
| "dict_set ((k', v') # d) k v = (if k' = k then (k, v) # d else (k', v') # dict_set d k v)"

definition dict_keys :: "('k \<times> 'v) list \<Rightarrow> 'k list" where
  "dict_keys d = map fst d"

definition dict_values :: "('k \<times> 'v) list \<Rightarrow> 'v list" where
  "dict_values d = map snd d"

definition dict_contains :: "('k \<times> 'v) list \<Rightarrow> 'k \<Rightarrow> bool" where
  "dict_contains d k = (k \<in> set (dict_keys d))"

text \<open>\<^verbatim>\<open>d.update(e)\<close>: the entries of \<open>e\<close> are assigned in order.\<close>

fun dict_update :: "('k \<times> 'v) list \<Rightarrow> ('k \<times> 'v) list \<Rightarrow> ('k \<times> 'v) list" where
  "dict_update d [] = d"
| "dict_update d ((k, v) # e) = dict_update (dict_set d k v) e"

text \<open>\<^verbatim>\<open>str.upper()\<close> on the ASCII letters.\<close>

definition upper_char :: "char \<Rightarrow> char" where
  "upper_char c =
     (case dict_get (zip ''abcdefghijklmnopqrstuvwxyz'' ''ABCDEFGHIJKLMNOPQRSTUVWXYZ'') c of
        Some u \<Rightarrow> u
      | None \<Rightarrow> c)"

definition upper :: "string \<Rightarrow> string" where
  "upper s = map upper_char s"

section \<open>Feature descriptors\<close>

text \<open>
  The members of \<^verbatim>\<open>FeatureType\<close> that \<^verbatim>\<open>processor.py\<close> refers to. The enum is declared
  in \<^verbatim>\<open>kdp.features\<close>; any further member it has is \<open>OTHER_MEMBER\<close> with its name.
\<close>

datatype FeatureType =
    FLOAT
  | FLOAT_NORMALIZED
  | FLOAT_RESCALED
  | FLOAT_DISCRETIZED
  | INTEGER_CATEGORICAL
  | STRING_CATEGORICAL
  | TEXT
  | DATE
  | OTHER_MEMBER string

datatype CategoryEncodingOptions = EMBEDDING | ONE_HOT_ENCODING

text \<open>
  The classes of \<^verbatim>\<open>kdp.features\<close>: \<open>Feature\<close> is the base class a custom
  descriptor is an instance of, the other four are the typed descriptors.
\<close>

datatype FeatureClass =
    NumericalFeature
  | CategoricalFeature
  | TextFeature
  | DateFeature
  | BaseFeature

record Feature =
  name :: string
  feature_type :: FeatureType
  cls :: FeatureClass
  preprocessors :: "string list"
  kwargs :: "(string \<times> pyval) list"
  dtype :: DType
  category_encoding :: "CategoryEncodingOptions option"

datatype FeatureSpec =
    SpecFeature Feature
  | SpecStr string
  | SpecType FeatureType

datatype pykey = KStr string | KObj Feature

datatype message =
    Unsupported_feature_type string FeatureSpec
  | No_features_specified
  | Stats_instance_not_initialized

datatype pyerror =
    KeyError pykey
  | ValueError message
  | TypeError string
  | AttributeError string
  | UnboundLocalError string

text \<open>\<^verbatim>\<open>d[k]\<close> raises \<^verbatim>\<open>KeyError(k)\<close> on a missing key.\<close>

definition dict_item :: "(string \<times> 'v) list \<Rightarrow> string \<Rightarrow> pyerror + 'v" where
  "dict_item d k = (case dict_get d k of None \<Rightarrow> Inl (KeyError (KStr k)) | Some v \<Rightarrow> Inr v)"

section \<open>Pipelines and tensors\<close>

text \<open>
  Modelled from the spec: \<^verbatim>\<open>FeaturePreprocessor\<close> is in \<^verbatim>\<open>kdp.pipeline\<close>. A chain is
  the ordered sequence of its steps; \<^verbatim>\<open>add_processing_step\<close> appends one step and
  \<^verbatim>\<open>chain\<close> applies the steps, in order, to the input. A step is the layer it names
  (a class name for the factory, a class object of a custom descriptor, or a creator
  function of \<^verbatim>\<open>PreprocessorLayerFactory\<close>), the layer's name and its other keyword
  arguments. Tensors are the symbolic handles of the graph.
\<close>

datatype LayerRef = LayerClassName string | LayerClassObj string | LayerCreator string

datatype Step = Step LayerRef string "(string \<times> pyval) list"

text \<open>
  \<open>TransformerBlock dim_model num_heads ff_units dropout_rate block_idx t\<close>: the layer
  is named \<^verbatim>\<open>transformer_block_{block_idx}_{num_heads}heads\<close>.
\<close>

datatype Tensor =
    Input pykey "nat list" pyval
  | Chain string "Tensor list" "Step list"
  | Reshape Tensor
  | Concatenate string "Tensor list"
  | TransformerBlock int int int real nat Tensor

datatype TensorSpec = TensorSpec "nat option list" pyval string

type_synonym stats = "(string \<times> pyval) list"

type_synonym features_dict = "(string \<times> stats) list"

type_synonym features_stats = "(string \<times> features_dict) list"

text \<open>
  What the embedding takes from outside \<^verbatim>\<open>processor.py\<close>: the names of the further
  members of \<^verbatim>\<open>FeatureType\<close>, the defaults the descriptor constructors give, the
  embedding size rule of a categorical descriptor, the rank and the second dimension
  Keras infers for a tensor, and what \<^verbatim>\<open>DatasetStatistics\<close> loads and computes.
\<close>

record External =
  extra_feature_types :: "string list"
  default_dtype :: "FeatureClass \<Rightarrow> FeatureType \<Rightarrow> DType"
  default_category_encoding :: "CategoryEncodingOptions option"
  embedding_size_rule :: "nat \<Rightarrow> int"
  tensor_rank :: "Tensor \<Rightarrow> nat"
  tensor_dim1 :: "Tensor \<Rightarrow> int"
  stats_load :: features_stats
  stats_main :: features_stats

definition FeatureType_names :: "(string \<times> FeatureType) list" where
  "FeatureType_names =
     [(''FLOAT'', FLOAT), (''FLOAT_NORMALIZED'', FLOAT_NORMALIZED),
      (''FLOAT_RESCALED'', FLOAT_RESCALED), (''FLOAT_DISCRETIZED'', FLOAT_DISCRETIZED),
      (''INTEGER_CATEGORICAL'', INTEGER_CATEGORICAL),
      (''STRING_CATEGORICAL'', STRING_CATEGORICAL), (''TEXT'', TEXT), (''DATE'', DATE)]"

text \<open>\<^verbatim>\<open>FeatureType[s]\<close>: the member named \<open>s\<close>, or \<^verbatim>\<open>KeyError(s)\<close>.\<close>

definition FeatureType_getitem :: "External \<Rightarrow> string \<Rightarrow> pyerror + FeatureType" where
  "FeatureType_getitem ext s =
     (case dict_get FeatureType_names s of
        Some t \<Rightarrow> Inr t
      | None \<Rightarrow>
          if s \<in> set (extra_feature_types ext) then Inr (OTHER_MEMBER s)
          else Inl (KeyError (KStr s)))"

text \<open>
  Modelled from the spec: the constructors \<^verbatim>\<open>NumericalFeature(name=, feature_type=)\<close>
  and its three siblings are in \<^verbatim>\<open>kdp.features\<close>. The descriptor they return has the
  given name and type, no custom steps, an empty configuration and the defaults of
  its class.
\<close>

definition new_feature :: "External \<Rightarrow> FeatureClass \<Rightarrow> string \<Rightarrow> FeatureType \<Rightarrow> Feature" where
  "new_feature ext c n t =
     \<lparr> name = n, feature_type = t, cls = c, preprocessors = [], kwargs = [],
       dtype = default_dtype ext c t,
       category_encoding =
         (if c = CategoricalFeature then default_category_encoding ext else None) \<rparr>"

section \<open>FeatureSpaceConverter\<close>

record FeatureSpaceConverter =
  fsc_features_space :: "(string \<times> Feature) list"
  fsc_numeric_features :: "string list"
  fsc_categorical_features :: "string list"
  fsc_text_features :: "string list"
  fsc_date_features :: "string list"

definition FeatureSpaceConverter_init :: FeatureSpaceConverter where
  "FeatureSpaceConverter_init =
     \<lparr> fsc_features_space = [], fsc_numeric_features = [], fsc_categorical_features = [],
       fsc_text_features = [], fsc_date_features = [] \<rparr>"

text \<open>Lines 76--80: the type tag of a declaration that is not a typed descriptor.\<close>

definition resolve_feature_type :: "External \<Rightarrow> FeatureSpec \<Rightarrow> pyerror + FeatureType" where
  "resolve_feature_type ext spec =
     (case spec of
        SpecFeature f \<Rightarrow> Inr (feature_type f)
      | SpecStr s \<Rightarrow> FeatureType_getitem ext (upper s)
      | SpecType t \<Rightarrow> Inr t)"

text \<open>Lines 83--97: the descriptor for a type tag.\<close>

definition create_feature :: "External \<Rightarrow> string \<Rightarrow> FeatureSpec \<Rightarrow> FeatureType \<Rightarrow> pyerror + Feature" where
  "create_feature ext n spec t =
     (if t \<in> {FLOAT, FLOAT_NORMALIZED, FLOAT_RESCALED, FLOAT_DISCRETIZED}
        then Inr (new_feature ext NumericalFeature n t)
      else if t \<in> {INTEGER_CATEGORICAL, STRING_CATEGORICAL}
        then Inr (new_feature ext CategoricalFeature n t)
      else if t = TEXT then Inr (new_feature ext TextFeature n t)
      else if t = DATE then Inr (new_feature ext DateFeature n t)
      else Inl (ValueError (Unsupported_feature_type n spec)))"

text \<open>Lines 72--97: the descriptor of one declaration.\<close>

definition feature_instance_of :: "External \<Rightarrow> string \<Rightarrow> FeatureSpec \<Rightarrow> pyerror + Feature" where
  "feature_instance_of ext n spec =
     (case spec of
        SpecFeature f \<Rightarrow>
          if cls f \<noteq> BaseFeature then Inr f
          else create_feature ext n spec (feature_type f)
      | _ \<Rightarrow>
          (case resolve_feature_type ext spec of
             Inl e \<Rightarrow> Inl e
           | Inr t \<Rightarrow> create_feature ext n spec t))"

text \<open>Lines 100--103: the custom steps and configuration of a descriptor are kept.\<close>

definition add_custom_pipelines :: "FeatureSpec \<Rightarrow> Feature \<Rightarrow> Feature" where
  "add_custom_pipelines spec fi =
     (case spec of
        SpecFeature f \<Rightarrow> fi\<lparr> preprocessors := preprocessors f, kwargs := kwargs f \<rparr>
      | _ \<Rightarrow> fi)"

text \<open>Lines 106--116: the name joins the sequence of its class, the descriptor is stored.\<close>

definition categorize :: "FeatureSpaceConverter \<Rightarrow> string \<Rightarrow> Feature \<Rightarrow> FeatureSpaceConverter" where
  "categorize c n fi =
     (let c1 =
        (case cls fi of
           NumericalFeature \<Rightarrow> c\<lparr> fsc_numeric_features := fsc_numeric_features c @ [n] \<rparr>
         | CategoricalFeature \<Rightarrow>
             c\<lparr> fsc_categorical_features := fsc_categorical_features c @ [n] \<rparr>
         | TextFeature \<Rightarrow> c\<lparr> fsc_text_features := fsc_text_features c @ [n] \<rparr>
         | DateFeature \<Rightarrow> c\<lparr> fsc_date_features := fsc_date_features c @ [n] \<rparr>
         | BaseFeature \<Rightarrow> c)
      in c1\<lparr> fsc_features_space := dict_set (fsc_features_space c1) n fi \<rparr>)"

text \<open>\<^verbatim>\<open>FeatureSpaceConverter._init_features_specs\<close>: the loop of line 70.\<close>

fun init_features_specs ::
  "External \<Rightarrow> FeatureSpaceConverter \<Rightarrow> (string \<times> FeatureSpec) list \<Rightarrow> pyerror + FeatureSpaceConverter"
where
  "init_features_specs ext c [] = Inr c"
| "init_features_specs ext c ((n, spec) # rest) =
     (case feature_instance_of ext n spec of
        Inl e \<Rightarrow> Inl e
      | Inr fi \<Rightarrow> init_features_specs ext (categorize c n (add_custom_pipelines spec fi)) rest)"

section \<open>PreprocessingModel\<close>

text \<open>
  The attributes of a \<^verbatim>\<open>PreprocessingModel\<close> that the methods read and write. An
  attribute that may be absent or \<^verbatim>\<open>None\<close> is an option; \<open>stats_instance\<close> says whether
  the attribute of that name exists. \<open>signatures\<close> is the attribute \<^verbatim>\<open>save_model\<close>
  reads.
\<close>

datatype ModelOutputs = OutTensor "Tensor option" | OutDict "(string \<times> Tensor option) list"

record KerasModel =
  model_inputs :: "(pykey \<times> Tensor) list"
  model_outputs :: ModelOutputs

record PreprocessingModel =
  features_stats :: features_stats
  features_specs :: "(string \<times> Feature) list"
  numeric_features :: "string list"
  categorical_features :: "string list"
  text_features :: "string list"
  date_features :: "string list"
  feature_crosses :: "(string \<times> string \<times> int) list"
  output_mode :: string
  overwrite_stats :: bool
  use_caching :: bool
  transfo_nr_blocks :: "int option"
  transfo_nr_heads :: int
  transfo_ff_units :: int
  transfo_dropout_rate :: real
  transfo_placement :: string
  inputs :: "(pykey \<times> Tensor) list"
  signature :: "(string \<times> TensorSpec) list"
  signatures :: "(string \<times> TensorSpec) list option"
  outputs :: "(string \<times> Tensor option) list"
  outputs_categorical :: "(string \<times> Tensor) list"
  preprocessed_cache :: "(string \<times> Tensor) list option"
  stats_instance :: bool
  features_to_concat :: "Tensor option list option"
  features_cat_to_concat :: "Tensor list option"
  concat_all :: "Tensor option"
  model :: "KerasModel option"

definition CONCAT :: string where
  "CONCAT = ''concat''"

definition DICT :: string where
  "DICT = ''dict''"

definition CATEGORICAL :: string where
  "CATEGORICAL = ''categorical''"

definition ALL_FEATURES :: string where
  "ALL_FEATURES = ''all_features''"

text \<open>Python truth value and \<^verbatim>\<open>len\<close> of a value.\<close>

fun truthy :: "pyval \<Rightarrow> bool" where
  "truthy PNone = False"
| "truthy (PBool b) = b"
| "truthy (PInt i) = (i \<noteq> 0)"
| "truthy (PFloat r) = (r \<noteq> 0)"
| "truthy (PStr s) = (s \<noteq> [])"
| "truthy (PList xs) = (xs \<noteq> [])"
| "truthy (PDict d) = (d \<noteq> [])"
| "truthy (PDTypeV t) = True"

fun py_len :: "pyval \<Rightarrow> pyerror + nat" where
  "py_len (PStr s) = Inr (length s)"
| "py_len (PList xs) = Inr (length xs)"
| "py_len (PDict d) = Inr (length d)"
| "py_len v = Inl (TypeError ''object has no len()'')"

text \<open>
  A call \<^verbatim>\<open>f(k1=.., k2=.., **kw)\<close> raises \<^verbatim>\<open>TypeError\<close> when \<open>kw\<close> repeats one of the
  keywords written out.
\<close>

definition spread_kwargs :: "string list \<Rightarrow> (string \<times> pyval) list \<Rightarrow> pyerror + (string \<times> pyval) list" where
  "spread_kwargs explicit kw =
     (if \<exists>k \<in> set (dict_keys kw). k \<in> set explicit
        then Inl (TypeError ''got multiple values for keyword argument'')
      else Inr kw)"

subsection \<open>Inputs\<close>

definition add_input_column :: "PreprocessingModel \<Rightarrow> pykey \<Rightarrow> pyval \<Rightarrow> PreprocessingModel" where
  "add_input_column m feature_name dt =
     m\<lparr> inputs := dict_set (inputs m) feature_name (Input feature_name [1] dt) \<rparr>"

definition add_input_signature :: "PreprocessingModel \<Rightarrow> string \<Rightarrow> pyval \<Rightarrow> PreprocessingModel" where
  "add_input_signature m feature_name dt =
     m\<lparr> signature :=
          dict_set (signature m) feature_name (TensorSpec [None, Some 1] dt feature_name) \<rparr>"

text \<open>\<^verbatim>\<open>self.inputs[feature_name]\<close> for a name.\<close>

definition inputs_item :: "PreprocessingModel \<Rightarrow> string \<Rightarrow> pyerror + Tensor" where
  "inputs_item m n =
     (case dict_get (inputs m) (KStr n) of
        None \<Rightarrow> Inl (KeyError (KStr n))
      | Some t \<Rightarrow> Inr t)"

text \<open>
  \<^verbatim>\<open>_parallel_setup_inputs\<close>. The tasks of a thread pool are taken in the order they
  are submitted, here and in \<^verbatim>\<open>_process_feature_batch\<close>.
\<close>

definition setup_input :: "PreprocessingModel \<Rightarrow> string \<Rightarrow> stats \<Rightarrow> PreprocessingModel" where
  "setup_input m feature_name st =
     (let dt = (case dict_get st ''dtype'' of None \<Rightarrow> PDTypeV tf_string | Some d \<Rightarrow> d)
      in add_input_signature (add_input_column m (KStr feature_name) dt) feature_name dt)"

fun parallel_setup_inputs :: "PreprocessingModel \<Rightarrow> features_dict \<Rightarrow> PreprocessingModel" where
  "parallel_setup_inputs m [] = m"
| "parallel_setup_inputs m ((feature_name, st) # rest) =
     parallel_setup_inputs (setup_input m feature_name st) rest"

subsection \<open>Per-feature pipelines\<close>

text \<open>\<^verbatim>\<open>_add_custom_steps\<close>: one step per custom layer class, in declared order.\<close>

fun add_custom_steps ::
  "Step list \<Rightarrow> string list \<Rightarrow> (string \<times> pyval) list \<Rightarrow> string \<Rightarrow> pyerror + Step list"
where
  "add_custom_steps preprocessor [] kw feature_name = Inr preprocessor"
| "add_custom_steps preprocessor (preprocessor_step # rest) kw feature_name =
     (case spread_kwargs [''layer_class'', ''name''] kw of
        Inl e \<Rightarrow> Inl e
      | Inr kw' \<Rightarrow>
          add_custom_steps
            (preprocessor @
               [Step (LayerClassObj preprocessor_step)
                  (preprocessor_step @ ''_'' @ feature_name) kw'])
            rest kw feature_name)"

definition cast_to_float :: "string \<Rightarrow> Step" where
  "cast_to_float feature_name =
     Step (LayerCreator ''cast_to_float32_layer'') (''cast_to_float_'' @ feature_name) []"

definition normalization :: "string \<Rightarrow> pyval \<Rightarrow> pyval \<Rightarrow> Step" where
  "normalization feature_name mean variance =
     Step (LayerClassName ''Normalization'') (''norm_'' @ feature_name)
       [(''mean'', mean), (''variance'', variance)]"

text \<open>Lines 494--548: the steps of a numeric feature.\<close>

definition numeric_steps :: "Feature \<Rightarrow> string \<Rightarrow> pyval \<Rightarrow> pyval \<Rightarrow> pyerror + Step list" where
  "numeric_steps f feature_name mean variance =
     (if preprocessors f \<noteq> [] then add_custom_steps [] (preprocessors f) (kwargs f) feature_name
      else if feature_type f = FLOAT_NORMALIZED then Inr [normalization feature_name mean variance]
      else if feature_type f = FLOAT_RESCALED then
        Inr [Step (LayerClassName ''Rescaling'') (''rescale_'' @ feature_name)
               [(''scale'',
                 (case dict_get (kwargs f) ''scale'' of None \<Rightarrow> PFloat 1 | Some sc \<Rightarrow> sc))]]
      else if feature_type f = FLOAT_DISCRETIZED then
        (case py_len (case dict_get (kwargs f) ''bin_boundaries'' of
                        None \<Rightarrow> PFloat 1 | Some b \<Rightarrow> b) of
           Inl e \<Rightarrow> Inl e
         | Inr l \<Rightarrow>
             (case spread_kwargs [''layer_class'', ''name''] (kwargs f) of
                Inl e \<Rightarrow> Inl e
              | Inr kw \<Rightarrow>
                  Inr [Step (LayerClassName ''Discretization'') (''discretize_'' @ feature_name) kw,
                       Step (LayerClassName ''CategoryEncoding'') (''one_hot_'' @ feature_name)
                         [(''num_tokens'', PInt (int l + 1)), (''output_mode'', PStr ''one_hot'')],
                       cast_to_float feature_name]))
      else Inr [normalization feature_name mean variance])"

text \<open>\<^verbatim>\<open>_add_pipeline_numeric\<close>.\<close>

definition add_pipeline_numeric ::
  "PreprocessingModel \<Rightarrow> string \<Rightarrow> Tensor \<Rightarrow> stats \<Rightarrow> pyerror + PreprocessingModel"
where
  "add_pipeline_numeric m feature_name input_layer st =
     (case dict_item st ''mean'' of
        Inl e \<Rightarrow> Inl e
      | Inr mean \<Rightarrow>
     (case dict_item st ''var'' of
        Inl e \<Rightarrow> Inl e
      | Inr variance \<Rightarrow>
     (case dict_item (features_specs m) feature_name of
        Inl e \<Rightarrow> Inl e
      | Inr f \<Rightarrow>
     (case numeric_steps f feature_name mean variance of
        Inl e \<Rightarrow> Inl e
      | Inr preprocessor \<Rightarrow>
          Inr (m\<lparr> outputs :=
                   dict_set (outputs m) feature_name
                     (Some (Chain feature_name [input_layer] preprocessor)) \<rparr>)))))"

text \<open>Lines 574--596: the custom steps or the lookup of a categorical feature.\<close>

definition categorical_lookup_steps :: "Feature \<Rightarrow> string \<Rightarrow> pyval \<Rightarrow> pyerror + Step list" where
  "categorical_lookup_steps f feature_name vocab =
     (if preprocessors f \<noteq> [] then add_custom_steps [] (preprocessors f) (kwargs f) feature_name
      else if feature_type f = STRING_CATEGORICAL then
        Inr [Step (LayerClassName ''StringLookup'') (''lookup_'' @ feature_name)
               [(''vocabulary'', vocab), (''num_oov_indices'', PInt 1)]]
      else if feature_type f = INTEGER_CATEGORICAL then
        Inr [Step (LayerClassName ''IntegerLookup'') (''lookup_'' @ feature_name)
               [(''vocabulary'', vocab), (''num_oov_indices'', PInt 1)]]
      else Inr [])"

text \<open>Lines 598--622: the steps of the category encoding.\<close>

definition categorical_encoding_steps ::
  "External \<Rightarrow> Feature \<Rightarrow> string \<Rightarrow> pyval \<Rightarrow> pyerror + Step list"
where
  "categorical_encoding_steps ext f feature_name vocab =
     (if category_encoding f = Some EMBEDDING then
        (let custom_embedding_size =
               (case dict_get (kwargs f) ''embedding_size'' of None \<Rightarrow> PNone | Some v \<Rightarrow> v)
         in case py_len vocab of
              Inl e \<Rightarrow> Inl e
            | Inr l \<Rightarrow>
                Inr [Step (LayerClassName ''Embedding'') (''embed_'' @ feature_name)
                       [(''input_dim'', PInt (int l + 1)),
                        (''output_dim'',
                         (if truthy custom_embedding_size then custom_embedding_size
                          else PInt (embedding_size_rule ext (l + 1))))]])
      else if category_encoding f = Some ONE_HOT_ENCODING then
        (case py_len vocab of
           Inl e \<Rightarrow> Inl e
         | Inr l \<Rightarrow>
             Inr [Step (LayerClassName ''CategoryEncoding'') (''one_hot_'' @ feature_name)
                    [(''num_tokens'', PInt (int l + 1)), (''output_mode'', PStr ''one_hot'')],
                  cast_to_float feature_name])
      else Inr [])"

definition flatten :: "string \<Rightarrow> Step" where
  "flatten feature_name = Step (LayerClassName ''Flatten'') (''flatten_'' @ feature_name) []"

text \<open>Lines 571--628: the whole chain of a categorical feature.\<close>

definition categorical_steps ::
  "External \<Rightarrow> Feature \<Rightarrow> string \<Rightarrow> pyval \<Rightarrow> pyerror + Step list"
where
  "categorical_steps ext f feature_name vocab =
     (case categorical_lookup_steps f feature_name vocab of
        Inl e \<Rightarrow> Inl e
      | Inr lookup \<Rightarrow>
          (case categorical_encoding_steps ext f feature_name vocab of
             Inl e \<Rightarrow> Inl e
           | Inr encoding \<Rightarrow> Inr (lookup @ encoding @ [flatten feature_name])))"

text \<open>\<^verbatim>\<open>_add_pipeline_categorical\<close>.\<close>

definition add_pipeline_categorical ::
  "External \<Rightarrow> PreprocessingModel \<Rightarrow> string \<Rightarrow> Tensor \<Rightarrow> stats \<Rightarrow> pyerror + PreprocessingModel"
where
  "add_pipeline_categorical ext m feature_name input_layer st =
     (case dict_item st ''vocab'' of
        Inl e \<Rightarrow> Inl e
      | Inr vocab \<Rightarrow>
     (case dict_item (features_specs m) feature_name of
        Inl e \<Rightarrow> Inl e
      | Inr f \<Rightarrow>
     (case categorical_steps ext f feature_name vocab of
        Inl e \<Rightarrow> Inl e
      | Inr preprocessor \<Rightarrow>
          Inr (m\<lparr> outputs_categorical :=
                   dict_set (outputs_categorical m) feature_name
                     (Chain feature_name [input_layer] preprocessor) \<rparr>))))"

text \<open>Lines 653--684: the steps of a text feature, and the descriptor as the code leaves it.\<close>

definition text_steps :: "Feature \<Rightarrow> string \<Rightarrow> pyval \<Rightarrow> pyerror + Feature \<times> Step list" where
  "text_steps f feature_name vocab =
     (if preprocessors f \<noteq> [] then
        (case add_custom_steps [] (preprocessors f) (kwargs f) feature_name of
           Inl e \<Rightarrow> Inl e
         | Inr preprocessor \<Rightarrow> Inr (f, preprocessor))
      else
        (let stop_words =
               (case dict_get (kwargs f) ''stop_words'' of None \<Rightarrow> PList [] | Some w \<Rightarrow> w)
         in case (if truthy stop_words then
                    (case spread_kwargs [''layer_creator'', ''name''] (kwargs f) of
                       Inl e \<Rightarrow> Inl e
                     | Inr kw \<Rightarrow>
                         Inr [Step (LayerCreator ''text_preprocessing_layer'')
                                (''text_preprocessor_'' @ feature_name) kw])
                  else Inr []) of
              Inl e \<Rightarrow> Inl e
            | Inr preprocessor \<Rightarrow>
                (let kw1 =
                       (if \<not> dict_contains (kwargs f) ''output_sequence_length''
                          then dict_set (kwargs f) ''output_sequence_length'' (PInt 35)
                        else kwargs f)
                 in case spread_kwargs [''layer_class'', ''name'', ''vocabulary''] kw1 of
                      Inl e \<Rightarrow> Inl e
                    | Inr kw \<Rightarrow>
                        Inr (f\<lparr> kwargs := kw1 \<rparr>,
                             preprocessor @
                               [Step (LayerClassName ''TextVectorization'')
                                  (''text_vactorizer_'' @ feature_name)
                                  ((''vocabulary'', vocab) # kw),
                                cast_to_float feature_name]))))"

text \<open>\<^verbatim>\<open>_add_pipeline_text\<close>.\<close>

definition add_pipeline_text ::
  "PreprocessingModel \<Rightarrow> string \<Rightarrow> Tensor \<Rightarrow> stats \<Rightarrow> pyerror + PreprocessingModel"
where
  "add_pipeline_text m feature_name input_layer st =
     (case dict_item (features_specs m) feature_name of
        Inl e \<Rightarrow> Inl e
      | Inr f \<Rightarrow>
     (case dict_item st ''vocab'' of
        Inl e \<Rightarrow> Inl e
      | Inr vocab \<Rightarrow>
     (case text_steps f feature_name vocab of
        Inl e \<Rightarrow> Inl e
      | Inr (f', preprocessor) \<Rightarrow>
          (let m1 = m\<lparr> features_specs := dict_set (features_specs m) feature_name f' \<rparr>;
               t = Chain feature_name [input_layer] preprocessor
           in if output_mode m1 = CONCAT
                then Inr (m1\<lparr> outputs_categorical :=
                                dict_set (outputs_categorical m1) feature_name t \<rparr>)
              else Inr (m1\<lparr> outputs := dict_set (outputs m1) feature_name (Some t) \<rparr>)))))"

text \<open>Lines 742--774: the steps of a date feature.\<close>

definition date_steps :: "Feature \<Rightarrow> string \<Rightarrow> pyerror + Step list" where
  "date_steps f feature_name =
     (if preprocessors f \<noteq> [] then add_custom_steps [] (preprocessors f) (kwargs f) feature_name
      else if feature_type f = DATE then
        Inr ([Step (LayerCreator ''date_parsing_layer'') (''date_parsing_'' @ feature_name)
                [(''date_format'',
                  (case dict_get (kwargs f) ''format'' of
                     None \<Rightarrow> PStr ''YYYY-MM-DD'' | Some fmt \<Rightarrow> fmt))],
              Step (LayerCreator ''date_encoding_layer'') (''date_encoding_'' @ feature_name) []]
             @ (if truthy (case dict_get (kwargs f) ''add_season'' of
                             None \<Rightarrow> PBool False | Some a \<Rightarrow> a)
                  then [Step (LayerCreator ''date_season_layer'')
                          (''date_season_'' @ feature_name) []]
                else []))
      else Inr [])"

text \<open>\<^verbatim>\<open>_add_pipeline_date\<close>.\<close>

definition add_pipeline_date ::
  "PreprocessingModel \<Rightarrow> string \<Rightarrow> Tensor \<Rightarrow> pyerror + PreprocessingModel"
where
  "add_pipeline_date m feature_name input_layer =
     (case dict_item (features_specs m) feature_name of
        Inl e \<Rightarrow> Inl e
      | Inr f \<Rightarrow>
     (case date_steps f feature_name of
        Inl e \<Rightarrow> Inl e
      | Inr preprocessor \<Rightarrow>
          Inr (m\<lparr> outputs :=
                   dict_set (outputs m) feature_name
                     (Some (Chain feature_name [input_layer] preprocessor)) \<rparr>)))"

subsection \<open>Crosses\<close>

text \<open>
  Lines 703--710: the inner loop over the two features of a cross. The call of line 710
  passes the descriptor \<^verbatim>\<open>_feature\<close> as \<^verbatim>\<open>feature_name\<close>.
\<close>

fun ensure_cross_inputs :: "PreprocessingModel \<Rightarrow> string list \<Rightarrow> pyerror + PreprocessingModel" where
  "ensure_cross_inputs m [] = Inr m"
| "ensure_cross_inputs m (feature_name # rest) =
     (case dict_item (features_specs m) feature_name of
        Inl e \<Rightarrow> Inl e
      | Inr f \<Rightarrow>
          ensure_cross_inputs
            (case dict_get (inputs m) (KStr feature_name) of
               None \<Rightarrow> add_input_column m (KObj f) (PDTypeV (dtype f))
             | Some i \<Rightarrow> m)
            rest)"

text \<open>Lines 700--725: one declared cross.\<close>

fun add_cross :: "PreprocessingModel \<Rightarrow> string \<times> string \<times> int \<Rightarrow> pyerror + PreprocessingModel" where
  "add_cross m (feature_a, feature_b, nr_bins) =
     (case ensure_cross_inputs m [feature_a, feature_b] of
        Inl e \<Rightarrow> Inl e
      | Inr m1 \<Rightarrow>
          (let feature_name = feature_a @ ''_x_'' @ feature_b;
               preprocessor =
                 [Step (LayerClassName ''HashedCrossing'') (''cross_'' @ feature_name)
                    [(''num_bins'', PInt nr_bins)],
                  cast_to_float feature_name]
           in case inputs_item m1 feature_a of
                Inl e \<Rightarrow> Inl e
              | Inr ia \<Rightarrow>
                  (case inputs_item m1 feature_b of
                     Inl e \<Rightarrow> Inl e
                   | Inr ib \<Rightarrow>
                       Inr (m1\<lparr> outputs :=
                                 dict_set (outputs m1) feature_name
                                   (Some (Chain feature_name [ia, ib] preprocessor)) \<rparr>))))"

fun add_crosses :: "PreprocessingModel \<Rightarrow> (string \<times> string \<times> int) list \<Rightarrow> pyerror + PreprocessingModel" where
  "add_crosses m [] = Inr m"
| "add_crosses m (c # rest) =
     (case add_cross m c of Inl e \<Rightarrow> Inl e | Inr m' \<Rightarrow> add_crosses m' rest)"

text \<open>\<^verbatim>\<open>_add_pipeline_cross\<close>.\<close>

definition add_pipeline_cross :: "PreprocessingModel \<Rightarrow> pyerror + PreprocessingModel" where
  "add_pipeline_cross m = add_crosses m (feature_crosses m)"

subsection \<open>Scheduling by kind\<close>

text \<open>One task of \<^verbatim>\<open>_process_feature_batch\<close>: lines 376--402.\<close>

definition build_feature ::
  "External \<Rightarrow> string \<Rightarrow> PreprocessingModel \<Rightarrow> string \<times> stats \<Rightarrow> pyerror + PreprocessingModel"
where
  "build_feature ext kind m entry =
     (let feature_name = fst entry; st = snd entry
      in if kind = ''numeric'' then
           (case inputs_item m feature_name of
              Inl e \<Rightarrow> Inl e
            | Inr i \<Rightarrow> add_pipeline_numeric m feature_name i st)
         else if kind = ''categorical'' then
           (case inputs_item m feature_name of
              Inl e \<Rightarrow> Inl e
            | Inr i \<Rightarrow> add_pipeline_categorical ext m feature_name i st)
         else if kind = ''text'' then
           (case inputs_item m feature_name of
              Inl e \<Rightarrow> Inl e
            | Inr i \<Rightarrow> add_pipeline_text m feature_name i st)
         else if kind = ''date'' then
           (case inputs_item m feature_name of
              Inl e \<Rightarrow> Inl e
            | Inr i \<Rightarrow> add_pipeline_date m feature_name i)
         else Inl (UnboundLocalError ''future''))"

text \<open>\<^verbatim>\<open>_process_feature_batch\<close>: the first error, in submission order, is raised.\<close>

fun process_feature_batch ::
  "External \<Rightarrow> PreprocessingModel \<Rightarrow> features_dict \<Rightarrow> string \<Rightarrow> pyerror + PreprocessingModel"
where
  "process_feature_batch ext m [] kind = Inr m"
| "process_feature_batch ext m (entry # rest) kind =
     (case build_feature ext kind m entry of
        Inl e \<Rightarrow> Inl e
      | Inr m' \<Rightarrow> process_feature_batch ext m' rest kind)"

text \<open>Lines 442--455: the four groups, in the order numeric, categorical, text, date.\<close>

type_synonym groups = "features_dict \<times> features_dict \<times> features_dict \<times> features_dict"

fun group_features :: "string list \<Rightarrow> string list \<Rightarrow> groups \<Rightarrow> features_dict \<Rightarrow> groups" where
  "group_features tfs dfs g [] = g"
| "group_features tfs dfs (nf, cf, tf, df) ((feature_name, st) # rest) =
     group_features tfs dfs
       (if dict_contains st ''mean'' then (nf @ [(feature_name, st)], cf, tf, df)
        else if dict_contains st ''vocab'' \<and> feature_name \<notin> set tfs
          then (nf, cf @ [(feature_name, st)], tf, df)
        else if feature_name \<in> set tfs then (nf, cf, tf @ [(feature_name, st)], df)
        else if feature_name \<in> set dfs then (nf, cf, tf, df @ [(feature_name, st)])
        else (nf, cf, tf, df))
       rest"

text \<open>Lines 468--471: the groups are processed in order, an empty one is skipped.\<close>

fun process_groups ::
  "External \<Rightarrow> PreprocessingModel \<Rightarrow> (features_dict \<times> string) list \<Rightarrow> pyerror + PreprocessingModel"
where
  "process_groups ext m [] = Inr m"
| "process_groups ext m ((features, kind) # rest) =
     (if features \<noteq> [] then
        (case process_feature_batch ext m features kind of
           Inl e \<Rightarrow> Inl e
         | Inr m' \<Rightarrow> process_groups ext m' rest)
      else process_groups ext m rest)"

text \<open>\<^verbatim>\<open>_process_features_parallel\<close>.\<close>

definition process_features_parallel ::
  "External \<Rightarrow> PreprocessingModel \<Rightarrow> features_dict \<Rightarrow> pyerror + PreprocessingModel"
where
  "process_features_parallel ext m fd =
     (case group_features (text_features m) (date_features m) ([], [], [], []) fd of
        (nf, cf, tf, df) \<Rightarrow>
          process_groups ext (parallel_setup_inputs m fd)
            [(nf, ''numeric''), (cf, ''categorical''), (tf, ''text''), (df, ''date'')])"

subsection \<open>Output fusion\<close>

text \<open>
  Line 794: \<^verbatim>\<open>Reshape((-1,))(feature) if len(feature.shape) == 2 | 4 else feature\<close>.
  In Python \<^verbatim>\<open>|\<close> binds tighter than \<^verbatim>\<open>==\<close>: the rank is compared with the bitwise or
  of 2 and 4.
\<close>

definition reshape_feature :: "External \<Rightarrow> Tensor \<Rightarrow> Tensor" where
  "reshape_feature ext feature =
     (if int (tensor_rank ext feature) = (2 OR 4) then Reshape feature else feature)"

fun reshape_features :: "External \<Rightarrow> Tensor option list \<Rightarrow> pyerror + Tensor list" where
  "reshape_features ext [] = Inr []"
| "reshape_features ext (None # rest) = Inl (AttributeError ''shape'')"
| "reshape_features ext (Some feature # rest) =
     (case reshape_features ext rest of
        Inl e \<Rightarrow> Inl e
      | Inr reshaped \<Rightarrow> Inr (reshape_feature ext feature # reshaped))"

text \<open>Lines 797--826.\<close>

definition concat_groups :: "Tensor list \<Rightarrow> Tensor list \<Rightarrow> Tensor option" where
  "concat_groups reshaped_features cat =
     (let concat_num =
            (if reshaped_features \<noteq> []
               then Some (Concatenate ''ConcatenateNumeric'' reshaped_features) else None);
          concat_cat =
            (if cat \<noteq> [] then Some (Concatenate ''ConcatenateCategorical'' cat) else None)
      in case (concat_num, concat_cat) of
           (Some n, Some c) \<Rightarrow> Some (Concatenate ''ConcatenateAll'' [n, c])
         | (Some n, None) \<Rightarrow> Some n
         | (None, Some c) \<Rightarrow> Some c
         | (None, None) \<Rightarrow> None)"

text \<open>Lines 831--838: \<^verbatim>\<open>dim_model\<close> is read from the current tensor in each round.\<close>

fun transformer_blocks_categorical ::
  "External \<Rightarrow> PreprocessingModel \<Rightarrow> Tensor option \<Rightarrow> nat list \<Rightarrow> pyerror + Tensor option"
where
  "transformer_blocks_categorical ext m c [] = Inr c"
| "transformer_blocks_categorical ext m None (block_idx # rest) = Inl (AttributeError ''shape'')"
| "transformer_blocks_categorical ext m (Some t) (block_idx # rest) =
     transformer_blocks_categorical ext m
       (Some (TransformerBlock (tensor_dim1 ext t) (transfo_nr_heads m) (transfo_ff_units m)
                (transfo_dropout_rate m) block_idx t))
       rest"

text \<open>Lines 845--852: \<^verbatim>\<open>dim_model\<close> was read once, before the loop.\<close>

fun transformer_blocks_all ::
  "PreprocessingModel \<Rightarrow> int \<Rightarrow> Tensor \<Rightarrow> nat list \<Rightarrow> Tensor"
where
  "transformer_blocks_all m d t [] = t"
| "transformer_blocks_all m d t (block_idx # rest) =
     transformer_blocks_all m d
       (TransformerBlock d (transfo_nr_heads m) (transfo_ff_units m)
          (transfo_dropout_rate m) block_idx t)
       rest"

definition nr_blocks_set :: "PreprocessingModel \<Rightarrow> bool" where
  "nr_blocks_set m = (case transfo_nr_blocks m of None \<Rightarrow> False | Some n \<Rightarrow> n \<noteq> 0)"

definition block_range :: "PreprocessingModel \<Rightarrow> nat list" where
  "block_range m = (case transfo_nr_blocks m of None \<Rightarrow> [] | Some n \<Rightarrow> [0..<nat n])"

text \<open>Lines 829--852.\<close>

definition add_transformer_blocks ::
  "External \<Rightarrow> PreprocessingModel \<Rightarrow> Tensor option \<Rightarrow> pyerror + Tensor option"
where
  "add_transformer_blocks ext m c =
     (case (if nr_blocks_set m \<and> transfo_placement m = CATEGORICAL
              then transformer_blocks_categorical ext m c (block_range m)
            else Inr c) of
        Inl e \<Rightarrow> Inl e
      | Inr c1 \<Rightarrow>
          if nr_blocks_set m \<and> transfo_placement m = ALL_FEATURES then
            (case c1 of
               None \<Rightarrow> Inl (AttributeError ''shape'')
             | Some t \<Rightarrow>
                 Inr (Some (transformer_blocks_all m (tensor_dim1 ext t) t (block_range m))))
          else Inr c1)"

text \<open>\<^verbatim>\<open>OrderedDict(pairs)\<close>.\<close>

definition OrderedDict :: "('k \<times> 'v) list \<Rightarrow> ('k \<times> 'v) list" where
  "OrderedDict pairs = dict_update [] pairs"

text \<open>Line 856: \<^verbatim>\<open>[(k, None) for k in self.inputs if k in self.outputs]\<close>.\<close>

definition seeded_outputs :: "PreprocessingModel \<Rightarrow> (string \<times> Tensor option) list" where
  "seeded_outputs m =
     List.map_filter
       (\<lambda>k. case k of
              KStr s \<Rightarrow> if dict_contains (outputs m) s then Some (s, None) else None
            | KObj f \<Rightarrow> None)
       (dict_keys (inputs m))"

text \<open>\<^verbatim>\<open>_prepare_outputs\<close>.\<close>

definition prepare_outputs :: "External \<Rightarrow> PreprocessingModel \<Rightarrow> pyerror + PreprocessingModel" where
  "prepare_outputs ext m =
     (if output_mode m = CONCAT then
        (let m1 = m\<lparr> features_to_concat := Some (dict_values (outputs m)),
                     features_cat_to_concat := Some (dict_values (outputs_categorical m)) \<rparr>
         in case reshape_features ext (dict_values (outputs m)) of
              Inl e \<Rightarrow> Inl e
            | Inr reshaped_features \<Rightarrow>
                (case add_transformer_blocks ext m1
                        (concat_groups reshaped_features (dict_values (outputs_categorical m))) of
                   Inl e \<Rightarrow> Inl e
                 | Inr c \<Rightarrow> Inr (m1\<lparr> concat_all := c \<rparr>)))
      else
        Inr (m\<lparr> outputs := dict_update (OrderedDict (seeded_outputs m)) (OrderedDict (outputs m)) \<rparr>))"

subsection \<open>Build\<close>

text \<open>\<^verbatim>\<open>_cleanup_intermediate_tensors\<close>.\<close>

definition cleanup_intermediate_tensors :: "PreprocessingModel \<Rightarrow> PreprocessingModel" where
  "cleanup_intermediate_tensors m =
     m\<lparr> preprocessed_cache :=
          (case preprocessed_cache m of None \<Rightarrow> None | Some c \<Rightarrow> Some []),
        features_to_concat := None,
        features_cat_to_concat := None \<rparr>"

text \<open>Lines 910--912: one call of \<^verbatim>\<open>_process_features_parallel\<close> per statistics key.\<close>

fun process_all_stats ::
  "External \<Rightarrow> PreprocessingModel \<Rightarrow> features_stats \<Rightarrow> pyerror + PreprocessingModel"
where
  "process_all_stats ext m [] = Inr m"
| "process_all_stats ext m ((key, fd) # rest) =
     (case process_features_parallel ext m fd of
        Inl e \<Rightarrow> Inl e
      | Inr m' \<Rightarrow> process_all_stats ext m' rest)"

text \<open>Lines 919--945: the text features, by declaration.\<close>

fun build_text_features :: "PreprocessingModel \<Rightarrow> string list \<Rightarrow> pyerror + PreprocessingModel" where
  "build_text_features m [] = Inr m"
| "build_text_features m (feature_name # rest) =
     (let m1 = add_input_signature
                 (add_input_column m (KStr feature_name) (PDTypeV tf_string))
                 feature_name (PDTypeV tf_string)
      in case inputs_item m1 feature_name of
           Inl e \<Rightarrow> Inl e
         | Inr input_layer \<Rightarrow>
             (let m2 = (if \<not> dict_contains (features_stats m1) ''text''
                          then m1\<lparr> features_stats := dict_set (features_stats m1) ''text'' [] \<rparr>
                        else m1)
              in case dict_item (features_stats m2) ''text'' of
                   Inl e \<Rightarrow> Inl e
                 | Inr text_dict \<Rightarrow>
                     (let text_stats =
                            (case dict_get text_dict feature_name of
                               None \<Rightarrow>
                                 [(''vocab_size'', PInt 10000), (''sequence_length'', PInt 100),
                                  (''dtype'', PDTypeV tf_string)]
                             | Some st \<Rightarrow> st)
                      in case add_pipeline_text m2 feature_name input_layer text_stats of
                           Inl e \<Rightarrow> Inl e
                         | Inr m3 \<Rightarrow> build_text_features m3 rest)))"

text \<open>Lines 948--957: the date features, by declaration.\<close>

fun build_date_features :: "PreprocessingModel \<Rightarrow> string list \<Rightarrow> pyerror + PreprocessingModel" where
  "build_date_features m [] = Inr m"
| "build_date_features m (feat_name # rest) =
     (let m1 = add_input_signature
                 (add_input_column m (KStr feat_name) (PDTypeV tf_string))
                 feat_name (PDTypeV tf_string)
      in case inputs_item m1 feat_name of
           Inl e \<Rightarrow> Inl e
         | Inr input_layer \<Rightarrow>
             (case add_pipeline_date m1 feat_name input_layer of
                Inl e \<Rightarrow> Inl e
              | Inr m2 \<Rightarrow> build_date_features m2 rest))"

text \<open>Lines 902--907: the statistics are computed when none are given.\<close>

definition prepare_stats :: "External \<Rightarrow> PreprocessingModel \<Rightarrow> pyerror + PreprocessingModel" where
  "prepare_stats ext m =
     (if features_stats m = [] \<or> overwrite_stats m then
        (if \<not> stats_instance m then Inl (ValueError Stats_instance_not_initialized)
         else Inr (m\<lparr> features_stats := stats_main ext \<rparr>))
      else Inr m)"

text \<open>
  \<^verbatim>\<open>build_preprocessor\<close>. The result is the model object after the call; the dictionary
  the method returns reads its attributes. An exception leaves no result.
\<close>

definition build_preprocessor :: "External \<Rightarrow> PreprocessingModel \<Rightarrow> pyerror + PreprocessingModel" where
  "build_preprocessor ext m =
     (if features_specs m = [] then Inl (ValueError No_features_specified)
      else
     (case prepare_stats ext m of
        Inl e \<Rightarrow> Inl e
      | Inr m1 \<Rightarrow>
     (case process_all_stats ext m1 (features_stats m1) of
        Inl e \<Rightarrow> Inl e
      | Inr m2 \<Rightarrow>
     (case (if feature_crosses m2 \<noteq> [] then add_pipeline_cross m2 else Inr m2) of
        Inl e \<Rightarrow> Inl e
      | Inr m3 \<Rightarrow>
     (case build_text_features m3 (text_features m3) of
        Inl e \<Rightarrow> Inl e
      | Inr m4 \<Rightarrow>
     (case build_date_features m4 (date_features m4) of
        Inl e \<Rightarrow> Inl e
      | Inr m5 \<Rightarrow>
     (case prepare_outputs ext m5 of
        Inl e \<Rightarrow> Inl e
      | Inr m6 \<Rightarrow>
          Inr (cleanup_intermediate_tensors
                 (m6\<lparr> model :=
                        Some \<lparr> model_inputs = inputs m6,
                               model_outputs =
                                 (if output_mode m6 = CONCAT then OutTensor (concat_all m6)
                                  else OutDict (outputs m6)) \<rparr> \<rparr>)))))))))"

subsection \<open>Construction\<close>

record InitArgs =
  arg_features_stats :: features_stats
  arg_feature_crosses :: "(string \<times> string \<times> int) list"
  arg_output_mode :: string
  arg_overwrite_stats :: bool
  arg_features_specs :: "(string \<times> FeatureSpec) list"
  arg_transfo_nr_blocks :: "int option"
  arg_transfo_nr_heads :: int
  arg_transfo_ff_units :: int
  arg_transfo_dropout_rate :: real
  arg_transfo_placement :: string
  arg_use_caching :: bool

text \<open>The defaults of \<^verbatim>\<open>__init__\<close>, for the given declarations and statistics.\<close>

definition default_args :: "(string \<times> FeatureSpec) list \<Rightarrow> features_stats \<Rightarrow> InitArgs" where
  "default_args specs fstats =
     \<lparr> arg_features_stats = fstats, arg_feature_crosses = [], arg_output_mode = CONCAT,
       arg_overwrite_stats = False, arg_features_specs = specs,
       arg_transfo_nr_blocks = None, arg_transfo_nr_heads = 3, arg_transfo_ff_units = 16,
       arg_transfo_dropout_rate = 1 / 4, arg_transfo_placement = CATEGORICAL,
       arg_use_caching = True \<rparr>"

text \<open>
  \<^verbatim>\<open>__init__\<close> with \<^verbatim>\<open>_init_features_specs\<close> and \<^verbatim>\<open>_init_stats\<close>. No method assigns
  the attribute \<open>signatures\<close>.
\<close>

definition PreprocessingModel_init :: "External \<Rightarrow> InitArgs \<Rightarrow> pyerror + PreprocessingModel" where
  "PreprocessingModel_init ext a =
     (case init_features_specs ext FeatureSpaceConverter_init (arg_features_specs a) of
        Inl e \<Rightarrow> Inl e
      | Inr fsc \<Rightarrow>
          (let m = \<lparr> features_stats = arg_features_stats a,
                     features_specs = fsc_features_space fsc,
                     numeric_features = fsc_numeric_features fsc,
                     categorical_features = fsc_categorical_features fsc,
                     text_features = fsc_text_features fsc,
                     date_features = fsc_date_features fsc,
                     feature_crosses = arg_feature_crosses a,
                     output_mode = arg_output_mode a,
                     overwrite_stats = arg_overwrite_stats a,
                     use_caching = arg_use_caching a,
                     transfo_nr_blocks = arg_transfo_nr_blocks a,
                     transfo_nr_heads = arg_transfo_nr_heads a,
                     transfo_ff_units = arg_transfo_ff_units a,
                     transfo_dropout_rate = arg_transfo_dropout_rate a,
                     transfo_placement = arg_transfo_placement a,
                     inputs = [], signature = [], signatures = None,
                     outputs = [], outputs_categorical = [],
                     preprocessed_cache = (if arg_use_caching a then Some [] else None),
                     stats_instance = False,
                     features_to_concat = None, features_cat_to_concat = None,
                     concat_all = None, model = None \<rparr>
           in if features_stats m = []
                then Inr (m\<lparr> stats_instance := True, features_stats := stats_load ext \<rparr>)
              else Inr m))"

subsection \<open>Persistence\<close>

text \<open>
  \<^verbatim>\<open>json.loads(json.dumps(v, default=serialize_dtype))\<close>: a dtype becomes its name, the
  containers are traversed, every other value is kept.
\<close>

primrec json_roundtrip :: "pyval \<Rightarrow> pyval" where
  "json_roundtrip PNone = PNone"
| "json_roundtrip (PBool b) = PBool b"
| "json_roundtrip (PInt i) = PInt i"
| "json_roundtrip (PFloat r) = PFloat r"
| "json_roundtrip (PStr s) = PStr s"
| "json_roundtrip (PList xs) = PList (map json_roundtrip xs)"
| "json_roundtrip (PDict d) = PDict (map (map_prod id json_roundtrip) d)"
| "json_roundtrip (PDTypeV t) = PStr (dtype_name t)"

definition stats_to_pyval :: "features_stats \<Rightarrow> pyval" where
  "stats_to_pyval fs =
     PDict (map (\<lambda>(key, fd). (key, PDict (map (\<lambda>(n, st). (n, PDict st)) fd))) fs)"

definition names_to_pyval :: "string list \<Rightarrow> pyval" where
  "names_to_pyval ns = PList (map PStr ns)"

definition crosses_to_pyval :: "(string \<times> string \<times> int) list \<Rightarrow> pyval" where
  "crosses_to_pyval cs = PList (map (\<lambda>(a, b, n). PList [PStr a, PStr b, PInt n]) cs)"

text \<open>Lines 1085--1093, the same block as \<^verbatim>\<open>get_feature_statistics\<close>.\<close>

definition get_feature_statistics :: "PreprocessingModel \<Rightarrow> (string \<times> pyval) list" where
  "get_feature_statistics m =
     [(''feature_statistics'', stats_to_pyval (features_stats m)),
      (''numeric_features'', names_to_pyval (numeric_features m)),
      (''categorical_features'', names_to_pyval (categorical_features m)),
      (''text_features'', names_to_pyval (text_features m)),
      (''date_features'', names_to_pyval (date_features m)),
      (''feature_crosses'', crosses_to_pyval (feature_crosses m)),
      (''output_mode'', PStr (output_mode m))]"

record SavedModel =
  saved_model :: KerasModel
  saved_signatures :: "(string \<times> TensorSpec) list"
  saved_metadata :: pyval

text \<open>
  \<^verbatim>\<open>save_model\<close>: the metadata is serialized, then the arguments of \<^verbatim>\<open>self.model.save\<close>
  are evaluated, among them \<^verbatim>\<open>self.signatures\<close>.
\<close>

definition save_model :: "PreprocessingModel \<Rightarrow> pyerror + SavedModel" where
  "save_model m =
     (let stats_metadata = json_roundtrip (PDict (get_feature_statistics m))
      in case model m of
           None \<Rightarrow> Inl (AttributeError ''model'')
         | Some km \<Rightarrow>
             (case signatures m of
                None \<Rightarrow> Inl (AttributeError ''signatures'')
              | Some sg \<Rightarrow>
                  Inr \<lparr> saved_model = km, saved_signatures = sg,
                        saved_metadata = stats_metadata \<rparr>))"

text \<open>\<^verbatim>\<open>load_model\<close>: the graph and \<^verbatim>\<open>_metadata.get("feature_statistics", {})\<close>.\<close>

definition load_model :: "SavedModel \<Rightarrow> KerasModel \<times> pyval" where
  "load_model sm =
     (saved_model sm,
      (case saved_metadata sm of
         PDict d \<Rightarrow> (case dict_get d ''feature_statistics'' of None \<Rightarrow> PDict [] | Some v \<Rightarrow> v)
       | other \<Rightarrow> PDict []))"

section \<open>Scenarios\<close>

text \<open>\<^verbatim>\<open>PreprocessingModel(...).build_preprocessor()\<close>.\<close>

definition build :: "External \<Rightarrow> InitArgs \<Rightarrow> pyerror + PreprocessingModel" where
  "build ext a =
     (case PreprocessingModel_init ext a of
        Inl e \<Rightarrow> Inl e
      | Inr m \<Rightarrow> build_preprocessor ext m)"

text \<open>
  An environment: no further member of \<^verbatim>\<open>FeatureType\<close>, one-hot encoding as the default
  of a categorical descriptor, every tensor of rank 2 and width 1.
\<close>

definition ext0 :: External where
  "ext0 =
     \<lparr> extra_feature_types = [],
       default_dtype = (\<lambda>c t. if c = NumericalFeature then tf_float32 else tf_string),
       default_category_encoding = Some ONE_HOT_ENCODING,
       embedding_size_rule = (\<lambda>n. int n),
       tensor_rank = (\<lambda>t. 2),
       tensor_dim1 = (\<lambda>t. 1),
       stats_load = [],
       stats_main = [] \<rparr>"

text \<open>
  The two features of the end-to-end scenarios: \<^verbatim>\<open>age\<close> with mean 30 and variance 25,
  \<^verbatim>\<open>city\<close> with the vocabulary NYC, LA.
\<close>

definition age_city_specs :: "(string \<times> FeatureSpec) list" where
  "age_city_specs =
     [(''age'', SpecStr ''float_normalized''), (''city'', SpecStr ''string_categorical'')]"

definition age_stats :: stats where
  "age_stats = [(''mean'', PFloat 30), (''var'', PFloat 25), (''dtype'', PDTypeV tf_float32)]"

definition city_stats :: stats where
  "city_stats = [(''vocab'', PList [PStr ''NYC'', PStr ''LA'']), (''dtype'', PDTypeV tf_string)]"

definition age_city_stats :: features_stats where
  "age_city_stats =
     [(''numeric_stats'', [(''age'', age_stats)]),
      (''categorical_stats'', [(''city'', city_stats)])]"

text \<open>A numeric feature crossed with a date feature, which has no statistics.\<close>

definition age_day_cross_args :: InitArgs where
  "age_day_cross_args =
     (default_args [(''age'', SpecStr ''float''), (''day'', SpecStr ''date'')]
        [(''numeric_stats'', [(''age'', age_stats)])])
     \<lparr> arg_feature_crosses := [(''age'', ''day'', 10)] \<rparr>"

text \<open>The attributes after \<^verbatim>\<open>__init__\<close> with its defaults, before any feature is declared.\<close>

definition blank_model :: PreprocessingModel where
  "blank_model =
     \<lparr> features_stats = [], features_specs = [], numeric_features = [],
       categorical_features = [], text_features = [], date_features = [],
       feature_crosses = [], output_mode = CONCAT, overwrite_stats = False,
       use_caching = True, transfo_nr_blocks = None, transfo_nr_heads = 3,
       transfo_ff_units = 16, transfo_dropout_rate = 1 / 4,
       transfo_placement = CATEGORICAL, inputs = [], signature = [], signatures = None,
       outputs = [], outputs_categorical = [], preprocessed_cache = Some [],
       stats_instance = False, features_to_concat = None, features_cat_to_concat = None,
       concat_all = None, model = None \<rparr>"

text \<open>A custom descriptor: a numeric feature with one custom layer class.\<close>

definition custom_feature :: Feature where
  "custom_feature =
     \<lparr> name = ''x'', feature_type = FLOAT, cls = BaseFeature, preprocessors = [''Dense''],
       kwargs = [(''units'', PInt 4)], dtype = tf_float32, category_encoding = None \<rparr>"

definition custom_args :: "stats \<Rightarrow> InitArgs" where
  "custom_args st =
     default_args [(''x'', SpecFeature custom_feature)] [(''numeric_stats'', [(''x'', st)])]"

definition float_feature :: "FeatureType \<Rightarrow> Feature" where
  "float_feature t = new_feature ext0 NumericalFeature ''age'' t"

definition city_feature :: Feature where
  "city_feature = new_feature ext0 CategoricalFeature ''city'' STRING_CATEGORICAL"

text \<open>Statistics that hold a mean, a variance and a vocabulary.\<close>

definition both_stats :: stats where
  "both_stats = [(''mean'', PFloat 0), (''var'', PFloat 1), (''vocab'', PList [PStr ''a''])]"

section \<open>The kind groups as the specification words them\<close>

text \<open>
  The kind of a statistics entry by fixed precedence: numeric when the statistics hold a
  mean, else categorical when they hold a vocabulary and the feature is not a declared
  text feature, else text, else date, else none. \<open>spec_group\<close> is the group of one
  kind, in the order of the dictionary. The loop of lines 442--455 is compared with it.
\<close>

definition spec_kind :: "string list \<Rightarrow> string list \<Rightarrow> string \<times> stats \<Rightarrow> string option" where
  "spec_kind tfs dfs e =
     (if dict_contains (snd e) ''mean'' then Some ''numeric''
      else if dict_contains (snd e) ''vocab'' \<and> fst e \<notin> set tfs then Some ''categorical''
      else if fst e \<in> set tfs then Some ''text''
      else if fst e \<in> set dfs then Some ''date''
      else None)"

definition spec_group :: "string list \<Rightarrow> string list \<Rightarrow> string \<Rightarrow> features_dict \<Rightarrow> features_dict" where
  "spec_group tfs dfs kind fd = filter (\<lambda>e. spec_kind tfs dfs e = Some kind) fd"

text \<open>
  A kind group is built by its pipeline: the entries are taken in order, each with the
  input placeholder stored under its name, and the first error ends the run.
\<close>

fun spec_run ::
  "(PreprocessingModel \<Rightarrow> string \<Rightarrow> Tensor \<Rightarrow> stats \<Rightarrow> pyerror + PreprocessingModel)
   \<Rightarrow> PreprocessingModel \<Rightarrow> features_dict \<Rightarrow> pyerror + PreprocessingModel"
where
  "spec_run pipeline m [] = Inr m"
| "spec_run pipeline m ((n, st) # rest) =
     (case inputs_item m n of
        Inl e \<Rightarrow> Inl e
      | Inr i \<Rightarrow>
          (case pipeline m n i st of
             Inl e \<Rightarrow> Inl e
           | Inr m' \<Rightarrow> spec_run pipeline m' rest))"

section \<open>Evaluation\<close>

lemmas spec_defs = feature_instance_of_def resolve_feature_type_def FeatureType_getitem_def
  FeatureType_names_def upper_def upper_char_def create_feature_def new_feature_def
  add_custom_pipelines_def categorize_def FeatureSpaceConverter_init_def

lemmas build_defs = build_def PreprocessingModel_init_def default_args_def
  build_preprocessor_def prepare_stats_def process_features_parallel_def setup_input_def
  add_input_column_def add_input_signature_def build_feature_def inputs_item_def
  dict_item_def dict_contains_def dict_keys_def dict_values_def add_pipeline_numeric_def
  numeric_steps_def normalization_def add_pipeline_categorical_def categorical_steps_def
  categorical_lookup_steps_def categorical_encoding_steps_def cast_to_float_def flatten_def
  add_pipeline_cross_def add_pipeline_date_def date_steps_def add_pipeline_text_def
  text_steps_def prepare_outputs_def seeded_outputs_def OrderedDict_def
  List.map_filter_def cleanup_intermediate_tensors_def CONCAT_def DICT_def CATEGORICAL_def
  ALL_FEATURES_def concat_groups_def add_transformer_blocks_def nr_blocks_set_def
  block_range_def reshape_feature_def tf_string_def tf_float32_def Let_def

lemmas scenario_defs = age_city_specs_def age_city_stats_def age_stats_def city_stats_def
  age_day_cross_args_def

section \<open>Output fusion: the reshape test\<close>

text \<open>
  C1. In CONCAT mode the fusion stage is to reshape a plain output exactly when its rank
  is 2 or 4. The test of line 794 compares the rank with \<^verbatim>\<open>2 | 4\<close>, which is 6: a
  plain output is reshaped exactly when its rank is 6, and an output of rank 2 or of
  rank 4 is concatenated as it is. So is the rank-2 output of the feature age, built in
  CONCAT mode.
\<close>

theorem reshape_feature_only_rank_6:
  "reshape_feature ext feature =
     (if tensor_rank ext feature = 6 then Reshape feature else feature) \<and>
   tensor_rank ext0 (Chain ''age'' [Input (KStr ''age'') [1] (PDTypeV tf_float32)]
        [Step (LayerClassName ''Normalization'') ''norm_age''
           [(''mean'', PFloat 30), (''variance'', PFloat 25)]]) = 2 \<and>
   map_sum id concat_all
     (build ext0 (default_args [(''age'', SpecStr ''float_normalized'')]
                    [(''numeric_stats'', [(''age'', age_stats)])]))
   = Inr (Some (Concatenate ''ConcatenateNumeric''
       [Chain ''age'' [Input (KStr ''age'') [1] (PDTypeV tf_float32)]
          [Step (LayerClassName ''Normalization'') ''norm_age''
             [(''mean'', PFloat 30), (''variance'', PFloat 25)]]]))"
  by (simp add: scenario_defs spec_defs build_defs ext0_def)

section \<open>DICT mode: the categorical output\<close>

text \<open>
  C2. In DICT mode the features age (numeric) and city (categorical) are to give a
  mapping with the keys age, city. The categorical pipeline stores its output in
  \<^verbatim>\<open>outputs_categorical\<close> whatever the output mode, and the DICT branch reads
  \<^verbatim>\<open>outputs\<close> only: the mapping the build produces has the single key age.
\<close>

theorem dict_mode_keys_age_city:
  "map_sum id (\<lambda>m. (dict_keys (outputs m), dict_keys (outputs_categorical m)))
     (build ext ((default_args age_city_specs age_city_stats)\<lparr> arg_output_mode := DICT \<rparr>))
   = Inr ([''age''], [''city''])"
  by (simp add: scenario_defs spec_defs build_defs)

section \<open>Crosses: the missing placeholder\<close>

text \<open>
  C3. For a cross whose feature has no input placeholder yet, the builder is to create one
  under the feature's name. Line 710 passes the descriptor object as the name, so the
  placeholder is stored under the object and the lookup by name of line 724 raises
  \<^verbatim>\<open>KeyError\<close>: the build of a numeric feature crossed with a date feature fails.
\<close>

theorem cross_with_missing_input_fails:
  "build ext age_day_cross_args = Inl (KeyError (KStr ''day''))"
  by (simp add: scenario_defs spec_defs build_defs)

section \<open>Normalization of a string type tag\<close>

text \<open>
  C4. A string that names no feature type is to fail with the unsupported-feature-type
  error that names the feature. The lookup \<^verbatim>\<open>FeatureType[spec.upper()]\<close> of line 80
  raises \<^verbatim>\<open>KeyError\<close> with the upper-cased string first: for the feature x declared as
  bogus the error is \<^verbatim>\<open>KeyError('BOGUS')\<close>, which does not name x. The error of
  line 97 is reached by a string that names a member of no supported kind, as crosses does
  when the enum has a member CROSSES.
\<close>

theorem unknown_type_string_raises_KeyError:
  "init_features_specs (ext\<lparr> extra_feature_types := [] \<rparr>) FeatureSpaceConverter_init
     [(''x'', SpecStr ''bogus'')]
   = Inl (KeyError (KStr ''BOGUS'')) \<and>
   init_features_specs (ext\<lparr> extra_feature_types := [''CROSSES''] \<rparr>)
     FeatureSpaceConverter_init [(''x'', SpecStr ''crosses'')]
   = Inl (ValueError (Unsupported_feature_type ''x'' (SpecStr ''crosses'')))"
  by (simp add: spec_defs)

section \<open>Saving the model\<close>

text \<open>
  C6. \<^verbatim>\<open>save_model\<close> is to save the graph with its metadata block. It passes
  \<^verbatim>\<open>self.signatures\<close> to \<^verbatim>\<open>self.model.save\<close>; the attribute the class sets is
  \<^verbatim>\<open>signature\<close>, so after a successful build of the age and city features
  \<^verbatim>\<open>save_model\<close> raises \<^verbatim>\<open>AttributeError\<close> and nothing is saved.
\<close>

theorem save_model_raises_AttributeError:
  "(case build ext (default_args age_city_specs age_city_stats) of
      Inl e \<Rightarrow> Inl e
    | Inr m \<Rightarrow> save_model m)
   = Inl (AttributeError ''signatures'')"
  by (simp add: scenario_defs spec_defs build_defs save_model_def)

section \<open>Missing statistics keys\<close>

text \<open>
  C5, as the claim states it, fails: a feature that carries custom steps does not build
  without the statistics keys. The custom feature x with a mean and no variance fails at
  its build step with \<^verbatim>\<open>KeyError('var')\<close>; with the variance it builds.
\<close>

theorem custom_feature_still_needs_statistics:
  "build ext0 (custom_args [(''mean'', PFloat 0), (''dtype'', PDTypeV tf_float32)])
     = Inl (KeyError (KStr ''var'')) \<and>
   \<not> isl (build ext0
            (custom_args
               [(''mean'', PFloat 0), (''var'', PFloat 1), (''dtype'', PDTypeV tf_float32)]))"
  by (simp add: custom_args_def custom_feature_def spec_defs build_defs spread_kwargs_def
      ext0_def)

text \<open>
  C5, amended. The numeric build step reads \<^verbatim>\<open>mean\<close> and \<^verbatim>\<open>var\<close> and the categorical
  build step reads \<^verbatim>\<open>vocab\<close> before the descriptor is looked at: a missing key raises
  \<^verbatim>\<open>KeyError\<close> with that key for every feature, with or without custom steps.
\<close>

theorem missing_statistics_key_raises:
  "(dict_get st ''mean'' = None \<longrightarrow>
      add_pipeline_numeric m n i st = Inl (KeyError (KStr ''mean''))) \<and>
   (dict_get st ''mean'' \<noteq> None \<longrightarrow> dict_get st ''var'' = None \<longrightarrow>
      add_pipeline_numeric m n i st = Inl (KeyError (KStr ''var''))) \<and>
   (dict_get st ''vocab'' = None \<longrightarrow>
      add_pipeline_categorical ext m n i st = Inl (KeyError (KStr ''vocab'')))"
  by (auto simp: add_pipeline_numeric_def add_pipeline_categorical_def dict_item_def)

theorem missing_statistics_key_raises_witness:
  "preprocessors custom_feature \<noteq> [] \<and>
   dict_get [(''mean'', PFloat 0)] ''var'' = None \<and>
   add_pipeline_numeric (blank_model\<lparr> features_specs := [(''x'', custom_feature)] \<rparr>) ''x''
     (Input (KStr ''x'') [1] (PDTypeV tf_float32)) [(''mean'', PFloat 0)]
   = Inl (KeyError (KStr ''var'')) \<and>
   add_pipeline_categorical ext0 (blank_model\<lparr> features_specs := [(''x'', custom_feature)] \<rparr>)
     ''x'' (Input (KStr ''x'') [1] (PDTypeV tf_float32)) [(''mean'', PFloat 0)]
   = Inl (KeyError (KStr ''vocab''))"
  using missing_statistics_key_raises
    [of "[(''mean'', PFloat 0)]" "blank_model\<lparr> features_specs := [(''x'', custom_feature)] \<rparr>"
      "''x''" "Input (KStr ''x'') [1] (PDTypeV tf_float32)" ext0]
  by (simp add: custom_feature_def)

section \<open>Dictionary lemmas\<close>

lemma dict_get_dict_set:
  "dict_get (dict_set d k v) k' = (if k' = k then Some v else dict_get d k')"
  by (induction d) auto

section \<open>The default numeric pipeline\<close>

text \<open>
  C7. For a numeric feature without custom steps, the type FLOAT_NORMALIZED and any type
  that is none of FLOAT_NORMALIZED, FLOAT_RESCALED, FLOAT_DISCRETIZED (plain FLOAT, an
  unrecognized one) give the same pipeline for the same mean and variance: both builds
  succeed and store, under the feature's name, the chain of the single normalization step
  with that mean and variance.
\<close>

theorem float_normalized_same_as_default:
  assumes "dict_get (features_specs m1) n = Some f1"
    and "dict_get (features_specs m2) n = Some f2"
    and "preprocessors f1 = []" and "preprocessors f2 = []"
    and "feature_type f1 = FLOAT_NORMALIZED"
    and "feature_type f2 \<notin> {FLOAT_NORMALIZED, FLOAT_RESCALED, FLOAT_DISCRETIZED}"
    and "dict_get st1 ''mean'' = Some mean" and "dict_get st1 ''var'' = Some variance"
    and "dict_get st2 ''mean'' = Some mean" and "dict_get st2 ''var'' = Some variance"
  shows "\<exists>m1' m2'.
           add_pipeline_numeric m1 n i st1 = Inr m1' \<and>
           add_pipeline_numeric m2 n i st2 = Inr m2' \<and>
           dict_get (outputs m1') n =
             Some (Some (Chain n [i]
               [Step (LayerClassName ''Normalization'') (''norm_'' @ n)
                  [(''mean'', mean), (''variance'', variance)]])) \<and>
           dict_get (outputs m2') n = dict_get (outputs m1') n"
  using assms
  by (simp add: add_pipeline_numeric_def dict_item_def numeric_steps_def normalization_def
      dict_get_dict_set)

theorem float_normalized_same_as_default_witness:
  "\<exists>m1' m2'.
     add_pipeline_numeric (blank_model\<lparr> features_specs := [(''age'', float_feature FLOAT_NORMALIZED)] \<rparr>)
       ''age'' (Input (KStr ''age'') [1] (PDTypeV tf_float32)) age_stats = Inr m1' \<and>
     add_pipeline_numeric (blank_model\<lparr> features_specs := [(''age'', float_feature FLOAT)] \<rparr>)
       ''age'' (Input (KStr ''age'') [1] (PDTypeV tf_float32)) age_stats = Inr m2' \<and>
     dict_get (outputs m1') ''age'' =
       Some (Some (Chain ''age'' [Input (KStr ''age'') [1] (PDTypeV tf_float32)]
         [Step (LayerClassName ''Normalization'') ''norm_age''
            [(''mean'', PFloat 30), (''variance'', PFloat 25)]])) \<and>
     dict_get (outputs m2') ''age'' = dict_get (outputs m1') ''age''"
  using float_normalized_same_as_default [of "blank_model\<lparr> features_specs := [(''age'', float_feature FLOAT_NORMALIZED)] \<rparr>"
      "''age''" "float_feature FLOAT_NORMALIZED"
      "blank_model\<lparr> features_specs := [(''age'', float_feature FLOAT)] \<rparr>"
      "float_feature FLOAT" age_stats "PFloat 30" "PFloat 25" age_stats
      "Input (KStr ''age'') [1] (PDTypeV tf_float32)"]
  by (simp add: float_feature_def new_feature_def age_stats_def)

section \<open>The categorical chain\<close>

text \<open>
  C8. For a feature without custom steps and a vocabulary that is a list, the categorical
  build step succeeds. Whenever it succeeds, the chain it stores under the feature's
  name ends with the flattening step, whatever the encoding and with or without custom
  steps. Without custom steps the chain begins with the string lookup (STRING_CATEGORICAL)
  or the integer lookup (INTEGER_CATEGORICAL) over the statistics vocabulary with one
  out-of-vocabulary index. With one-hot encoding the lookup is followed by the category
  encoding over the vocabulary size plus one tokens, the float cast and the flattening.
\<close>

theorem categorical_chain_shape:
  assumes "dict_get (features_specs m) n = Some f"
    and "dict_get st ''vocab'' = Some vocab"
  shows "(preprocessors f = [] \<and> (\<exists>vs. vocab = PList vs) \<longrightarrow>
            \<not> isl (add_pipeline_categorical ext m n i st)) \<and>
         (\<forall>m'. add_pipeline_categorical ext m n i st = Inr m' \<longrightarrow>
           (\<exists>steps.
              dict_get (outputs_categorical m') n = Some (Chain n [i] steps) \<and>
              steps \<noteq> [] \<and>
              last steps = Step (LayerClassName ''Flatten'') (''flatten_'' @ n) [] \<and>
              (preprocessors f = [] \<and> feature_type f = STRING_CATEGORICAL \<longrightarrow>
                 hd steps = Step (LayerClassName ''StringLookup'') (''lookup_'' @ n)
                              [(''vocabulary'', vocab), (''num_oov_indices'', PInt 1)]) \<and>
              (preprocessors f = [] \<and> feature_type f = INTEGER_CATEGORICAL \<longrightarrow>
                 hd steps = Step (LayerClassName ''IntegerLookup'') (''lookup_'' @ n)
                              [(''vocabulary'', vocab), (''num_oov_indices'', PInt 1)]) \<and>
              (category_encoding f = Some ONE_HOT_ENCODING \<longrightarrow>
                 (\<exists>l lookup. py_len vocab = Inr l \<and>
                    categorical_lookup_steps f n vocab = Inr lookup \<and>
                    steps = lookup @
                      [Step (LayerClassName ''CategoryEncoding'') (''one_hot_'' @ n)
                         [(''num_tokens'', PInt (int l + 1)),
                          (''output_mode'', PStr ''one_hot'')],
                       Step (LayerCreator ''cast_to_float32_layer'')
                         (''cast_to_float_'' @ n) [],
                       Step (LayerClassName ''Flatten'') (''flatten_'' @ n) []]))))"
proof (intro conjI allI impI)
  assume "preprocessors f = [] \<and> (\<exists>vs. vocab = PList vs)"
  then show "\<not> isl (add_pipeline_categorical ext m n i st)"
    using assms
    by (auto simp: add_pipeline_categorical_def dict_item_def categorical_steps_def
        categorical_lookup_steps_def categorical_encoding_steps_def Let_def)
next
  fix m'
  assume "add_pipeline_categorical ext m n i st = Inr m'"
  then show "\<exists>steps.
              dict_get (outputs_categorical m') n = Some (Chain n [i] steps) \<and>
              steps \<noteq> [] \<and>
              last steps = Step (LayerClassName ''Flatten'') (''flatten_'' @ n) [] \<and>
              (preprocessors f = [] \<and> feature_type f = STRING_CATEGORICAL \<longrightarrow>
                 hd steps = Step (LayerClassName ''StringLookup'') (''lookup_'' @ n)
                              [(''vocabulary'', vocab), (''num_oov_indices'', PInt 1)]) \<and>
              (preprocessors f = [] \<and> feature_type f = INTEGER_CATEGORICAL \<longrightarrow>
                 hd steps = Step (LayerClassName ''IntegerLookup'') (''lookup_'' @ n)
                              [(''vocabulary'', vocab), (''num_oov_indices'', PInt 1)]) \<and>
              (category_encoding f = Some ONE_HOT_ENCODING \<longrightarrow>
                 (\<exists>l lookup. py_len vocab = Inr l \<and>
                    categorical_lookup_steps f n vocab = Inr lookup \<and>
                    steps = lookup @
                      [Step (LayerClassName ''CategoryEncoding'') (''one_hot_'' @ n)
                         [(''num_tokens'', PInt (int l + 1)),
                          (''output_mode'', PStr ''one_hot'')],
                       Step (LayerCreator ''cast_to_float32_layer'')
                         (''cast_to_float_'' @ n) [],
                       Step (LayerClassName ''Flatten'') (''flatten_'' @ n) []]))"
    using assms
    by (auto simp: add_pipeline_categorical_def dict_item_def categorical_steps_def
        categorical_lookup_steps_def categorical_encoding_steps_def cast_to_float_def
        flatten_def dict_get_dict_set Let_def split: sum.splits if_splits)
qed

theorem categorical_chain_shape_witness:
  "\<exists>m' steps.
     add_pipeline_categorical ext0 (blank_model\<lparr> features_specs := [(''city'', city_feature)] \<rparr>)
       ''city'' (Input (KStr ''city'') [1] (PDTypeV tf_string)) city_stats = Inr m' \<and>
     dict_get (outputs_categorical m') ''city''
       = Some (Chain ''city'' [Input (KStr ''city'') [1] (PDTypeV tf_string)] steps) \<and>
     steps =
       [Step (LayerClassName ''StringLookup'') ''lookup_city''
          [(''vocabulary'', PList [PStr ''NYC'', PStr ''LA'']), (''num_oov_indices'', PInt 1)],
        Step (LayerClassName ''CategoryEncoding'') ''one_hot_city''
          [(''num_tokens'', PInt 3), (''output_mode'', PStr ''one_hot'')],
        Step (LayerCreator ''cast_to_float32_layer'') ''cast_to_float_city'' [],
        Step (LayerClassName ''Flatten'') ''flatten_city'' []]"
proof -
  let ?M = "blank_model\<lparr> features_specs := [(''city'', city_feature)] \<rparr>"
  let ?I = "Input (KStr ''city'') [1] (PDTypeV tf_string)"
  have f: "dict_get (features_specs ?M) ''city'' = Some city_feature"
    by simp
  have v: "dict_get city_stats ''vocab'' = Some (PList [PStr ''NYC'', PStr ''LA''])"
    by (simp add: city_stats_def)
  have enc: "category_encoding city_feature = Some ONE_HOT_ENCODING"
    and pre: "preprocessors city_feature = []"
    and ty: "feature_type city_feature = STRING_CATEGORICAL"
    by (simp_all add: city_feature_def new_feature_def ext0_def)
  note t = categorical_chain_shape [OF f v, of ext0 ?I]
  from t pre have "\<not> isl (add_pipeline_categorical ext0 ?M ''city'' ?I city_stats)"
    by blast
  then obtain m' where run: "add_pipeline_categorical ext0 ?M ''city'' ?I city_stats = Inr m'"
    by (cases "add_pipeline_categorical ext0 ?M ''city'' ?I city_stats") auto
  from t run enc pre ty show ?thesis
    by (auto simp: categorical_lookup_steps_def)
qed

section \<open>Input placeholders from statistics\<close>

lemma setup_input_other:
  "n' \<noteq> n \<Longrightarrow>
   dict_get (inputs (setup_input m n' st)) (KStr n) = dict_get (inputs m) (KStr n) \<and>
   dict_get (signature (setup_input m n' st)) n = dict_get (signature m) n"
  by (simp add: setup_input_def add_input_column_def add_input_signature_def Let_def
      dict_get_dict_set)

lemma parallel_setup_inputs_other:
  "n \<notin> fst ` set fd \<Longrightarrow>
   dict_get (inputs (parallel_setup_inputs m fd)) (KStr n) = dict_get (inputs m) (KStr n) \<and>
   dict_get (signature (parallel_setup_inputs m fd)) n = dict_get (signature m) n"
proof (induction fd arbitrary: m)
  case Nil
  then show ?case by simp
next
  case (Cons e fd)
  obtain n' st where e: "e = (n', st)" by (cases e)
  from Cons.prems e have ne: "n' \<noteq> n" and rest: "n \<notin> fst ` set fd" by auto
  show ?case
    using Cons.IH [OF rest, of "setup_input m n' st"] setup_input_other [OF ne, of m st] e
    by simp
qed

text \<open>
  C9. After \<^verbatim>\<open>_parallel_setup_inputs\<close>, every feature of the statistics dictionary whose
  statistics have no \<^verbatim>\<open>dtype\<close> entry has an input placeholder of shape (1,) and an input
  signature of shape (None, 1), both of dtype \<^verbatim>\<open>tf.string\<close>.
\<close>

theorem missing_dtype_defaults_to_string:
  assumes "distinct (map fst fd)"
    and "(n, st) \<in> set fd"
    and "dict_get st ''dtype'' = None"
  shows "dict_get (inputs (parallel_setup_inputs m fd)) (KStr n)
           = Some (Input (KStr n) [1] (PDTypeV tf_string)) \<and>
         dict_get (signature (parallel_setup_inputs m fd)) n
           = Some (TensorSpec [None, Some 1] (PDTypeV tf_string) n)"
  using assms
proof (induction fd arbitrary: m)
  case Nil
  then show ?case by simp
next
  case (Cons e fd)
  obtain n' st' where e: "e = (n', st')" by (cases e)
  show ?case
  proof (cases "(n, st) \<in> set fd")
    case True
    with Cons.prems e have "distinct (map fst fd)" by simp
    from Cons.IH [OF this True Cons.prems(3), of "setup_input m n' st'"] e
    show ?thesis by simp
  next
    case False
    with Cons.prems e have eq: "n' = n" "st' = st" by auto
    from Cons.prems(1) e eq have notin: "n \<notin> fst ` set fd" by simp
    have here:
      "dict_get (inputs (setup_input m n st)) (KStr n)
         = Some (Input (KStr n) [1] (PDTypeV tf_string)) \<and>
       dict_get (signature (setup_input m n st)) n
         = Some (TensorSpec [None, Some 1] (PDTypeV tf_string) n)"
      using Cons.prems(3)
      by (simp add: setup_input_def add_input_column_def add_input_signature_def
          dict_get_dict_set Let_def)
    from parallel_setup_inputs_other [OF notin, of "setup_input m n st"] here e eq
    show ?thesis by simp
  qed
qed

theorem missing_dtype_defaults_to_string_witness:
  "distinct (map fst [(''age'', age_stats), (''city'', [(''vocab'', PList [PStr ''NYC''])])]) \<and>
   dict_get [(''vocab'', PList [PStr ''NYC''])] ''dtype'' = None \<and>
   dict_get (inputs (parallel_setup_inputs blank_model
        [(''age'', age_stats), (''city'', [(''vocab'', PList [PStr ''NYC''])])])) (KStr ''city'')
     = Some (Input (KStr ''city'') [1] (PDTypeV tf_string)) \<and>
   dict_get (signature (parallel_setup_inputs blank_model
        [(''age'', age_stats), (''city'', [(''vocab'', PList [PStr ''NYC''])])])) ''city''
     = Some (TensorSpec [None, Some 1] (PDTypeV tf_string) ''city'')"
  using missing_dtype_defaults_to_string [of "[(''age'', age_stats), (''city'', [(''vocab'', PList [PStr ''NYC''])])]"
      "''city''" "[(''vocab'', PList [PStr ''NYC''])]" blank_model]
  by simp

section \<open>Grouping by statistics content\<close>

lemma spec_group_Cons:
  "spec_group tfs dfs k (e # fd) =
     (if spec_kind tfs dfs e = Some k then e # spec_group tfs dfs k fd
      else spec_group tfs dfs k fd)"
  by (simp add: spec_group_def)

lemma group_features_filter:
  "group_features tfs dfs (nf, cf, tf, df) fd =
     (nf @ spec_group tfs dfs ''numeric'' fd, cf @ spec_group tfs dfs ''categorical'' fd,
      tf @ spec_group tfs dfs ''text'' fd, df @ spec_group tfs dfs ''date'' fd)"
proof (induction fd arbitrary: nf cf tf df)
  case Nil
  show ?case by (simp add: spec_group_def)
next
  case (Cons e fd)
  obtain n st where e: "e = (n, st)" by (cases e)
  show ?case
  proof (cases "dict_contains st ''mean''")
    case True
    then have k: "spec_kind tfs dfs (n, st) = Some ''numeric''"
      by (simp add: spec_kind_def)
    show ?thesis
      unfolding e using True by (simp add: Cons.IH spec_group_Cons k)
  next
    case nm: False
    show ?thesis
    proof (cases "dict_contains st ''vocab'' \<and> n \<notin> set tfs")
      case True
      with nm have k: "spec_kind tfs dfs (n, st) = Some ''categorical''"
        by (simp add: spec_kind_def)
      show ?thesis
        unfolding e using nm True by (simp add: Cons.IH spec_group_Cons k)
    next
      case nc: False
      show ?thesis
      proof (cases "n \<in> set tfs")
        case True
        with nm nc have k: "spec_kind tfs dfs (n, st) = Some ''text''"
          by (simp add: spec_kind_def)
        show ?thesis
          unfolding e using nm nc True by (simp add: Cons.IH spec_group_Cons k)
      next
        case nt: False
        show ?thesis
        proof (cases "n \<in> set dfs")
          case True
          with nm nc nt have k: "spec_kind tfs dfs (n, st) = Some ''date''"
            by (simp add: spec_kind_def)
          show ?thesis
            unfolding e using nm nc nt True by (simp add: Cons.IH spec_group_Cons k)
        next
          case False
          with nm nc nt have k: "spec_kind tfs dfs (n, st) = None"
            by (simp add: spec_kind_def)
          show ?thesis
            unfolding e using nm nc nt False by (simp add: Cons.IH spec_group_Cons k)
        qed
      qed
    qed
  qed
qed


lemma build_feature_one_slot:
  assumes "build_feature ext kind m (n, st) = Inr m'"
  shows "(\<exists>t. outputs m' = dict_set (outputs m) n (Some t) \<and>
              outputs_categorical m' = outputs_categorical m) \<or>
         (\<exists>t. outputs_categorical m' = dict_set (outputs_categorical m) n t \<and>
              outputs m' = outputs m)"
proof -
  have num: "\<And>i. add_pipeline_numeric m n i st = Inr m' \<Longrightarrow> ?thesis"
    by (auto simp: add_pipeline_numeric_def split: sum.splits)
  have cat: "\<And>i. add_pipeline_categorical ext m n i st = Inr m' \<Longrightarrow> ?thesis"
    by (auto simp: add_pipeline_categorical_def split: sum.splits)
  have tex: "\<And>i. add_pipeline_text m n i st = Inr m' \<Longrightarrow> ?thesis"
    by (auto simp: add_pipeline_text_def Let_def split: sum.splits prod.splits if_splits)
  have dat: "\<And>i. add_pipeline_date m n i = Inr m' \<Longrightarrow> ?thesis"
    by (auto simp: add_pipeline_date_def split: sum.splits)
  from assms have
    "(\<exists>i. add_pipeline_numeric m n i st = Inr m') \<or>
     (\<exists>i. add_pipeline_categorical ext m n i st = Inr m') \<or>
     (\<exists>i. add_pipeline_text m n i st = Inr m') \<or>
     (\<exists>i. add_pipeline_date m n i = Inr m')"
    by (auto simp: build_feature_def split: if_splits sum.splits)
  then show ?thesis
    using num cat tex dat by blast
qed

lemma batch_numeric_spec_run:
  "process_feature_batch ext m es ''numeric'' = spec_run add_pipeline_numeric m es"
proof (induction es arbitrary: m)
  case Nil
  show ?case by simp
next
  case (Cons e es)
  obtain n st where e: "e = (n, st)" by (cases e)
  show ?case
    unfolding e by (simp add: build_feature_def Cons.IH split: sum.splits)
qed

lemma batch_categorical_spec_run:
  "process_feature_batch ext m es ''categorical'' = spec_run (add_pipeline_categorical ext) m es"
proof (induction es arbitrary: m)
  case Nil
  show ?case by simp
next
  case (Cons e es)
  obtain n st where e: "e = (n, st)" by (cases e)
  show ?case
    unfolding e by (simp add: build_feature_def Cons.IH split: sum.splits)
qed

lemma batch_text_spec_run:
  "process_feature_batch ext m es ''text'' = spec_run add_pipeline_text m es"
proof (induction es arbitrary: m)
  case Nil
  show ?case by simp
next
  case (Cons e es)
  obtain n st where e: "e = (n, st)" by (cases e)
  show ?case
    unfolding e by (simp add: build_feature_def Cons.IH split: sum.splits)
qed

lemma batch_date_spec_run:
  "process_feature_batch ext m es ''date'' =
     spec_run (\<lambda>m0 n i st. add_pipeline_date m0 n i) m es"
proof (induction es arbitrary: m)
  case Nil
  show ?case by simp
next
  case (Cons e es)
  obtain n st where e: "e = (n, st)" by (cases e)
  show ?case
    unfolding e by (simp add: build_feature_def Cons.IH split: sum.splits)
qed

lemma process_groups_Cons:
  "process_groups ext m ((es, kind) # rest) =
     (case process_feature_batch ext m es kind of
        Inl e \<Rightarrow> Inl e
      | Inr m' \<Rightarrow> process_groups ext m' rest)"
  by (cases es) simp_all

lemma process_features_parallel_spec_run:
  "process_features_parallel ext m fd =
     (case spec_run add_pipeline_numeric (parallel_setup_inputs m fd)
             (spec_group (text_features m) (date_features m) ''numeric'' fd) of
        Inl e \<Rightarrow> Inl e
      | Inr m1 \<Rightarrow>
     (case spec_run (add_pipeline_categorical ext) m1
             (spec_group (text_features m) (date_features m) ''categorical'' fd) of
        Inl e \<Rightarrow> Inl e
      | Inr m2 \<Rightarrow>
     (case spec_run add_pipeline_text m2
             (spec_group (text_features m) (date_features m) ''text'' fd) of
        Inl e \<Rightarrow> Inl e
      | Inr m3 \<Rightarrow>
          spec_run (\<lambda>m0 n i st. add_pipeline_date m0 n i) m3
            (spec_group (text_features m) (date_features m) ''date'' fd))))"
  unfolding process_features_parallel_def group_features_filter
  by (simp only: prod.case append_Nil process_groups_Cons process_groups.simps(1)
      batch_numeric_spec_run batch_categorical_spec_run batch_text_spec_run
      batch_date_spec_run)
    (simp split: sum.splits)


lemma numeric_frame:
  assumes "add_pipeline_numeric m0 n' i st' = Inr m1"
  shows "inputs m1 = inputs m0 \<and> features_specs m1 = features_specs m0 \<and>
         outputs_categorical m1 = outputs_categorical m0 \<and>
         (n' \<noteq> n \<longrightarrow> dict_get (outputs m1) n = dict_get (outputs m0) n)"
  using assms
  by (auto simp: add_pipeline_numeric_def dict_get_dict_set split: sum.splits)

lemma categorical_frame:
  assumes "add_pipeline_categorical ext m0 n' i st' = Inr m1"
  shows "inputs m1 = inputs m0 \<and> features_specs m1 = features_specs m0 \<and>
         outputs m1 = outputs m0 \<and>
         (n' \<noteq> n \<longrightarrow>
            dict_get (outputs_categorical m1) n = dict_get (outputs_categorical m0) n)"
  using assms
  by (auto simp: add_pipeline_categorical_def dict_get_dict_set split: sum.splits)

lemma text_frame:
  assumes "add_pipeline_text m0 n' i st' = Inr m1"
  shows "inputs m1 = inputs m0 \<and>
         (n' \<noteq> n \<longrightarrow>
            dict_get (outputs m1) n = dict_get (outputs m0) n \<and>
            dict_get (outputs_categorical m1) n = dict_get (outputs_categorical m0) n)"
  using assms
  by (auto simp: add_pipeline_text_def dict_get_dict_set Let_def
      split: sum.splits prod.splits if_splits)

lemma date_frame:
  assumes "add_pipeline_date m0 n' i = Inr m1"
  shows "inputs m1 = inputs m0 \<and> features_specs m1 = features_specs m0 \<and>
         outputs_categorical m1 = outputs_categorical m0 \<and>
         (n' \<noteq> n \<longrightarrow> dict_get (outputs m1) n = dict_get (outputs m0) n)"
  using assms
  by (auto simp: add_pipeline_date_def dict_get_dict_set split: sum.splits)

lemma spec_run_frame:
  assumes fr: "\<And>m0 n' i st' m1. pipeline m0 n' i st' = Inr m1 \<Longrightarrow> n' \<noteq> n \<Longrightarrow>
                 dict_get (outputs m1) n = dict_get (outputs m0) n \<and>
                 dict_get (outputs_categorical m1) n = dict_get (outputs_categorical m0) n"
    and run: "spec_run pipeline m es = Inr m'"
    and notin: "n \<notin> fst ` set es"
  shows "dict_get (outputs m') n = dict_get (outputs m) n \<and>
         dict_get (outputs_categorical m') n = dict_get (outputs_categorical m) n"
  using run notin
proof (induction es arbitrary: m)
  case Nil
  then show ?case by simp
next
  case (Cons e es)
  obtain n' st' where e: "e = (n', st')" by (cases e)
  from Cons.prems(2) e have ne: "n' \<noteq> n" and rest: "n \<notin> fst ` set es" by auto
  from Cons.prems(1) e obtain i m1 where
    step: "pipeline m n' i st' = Inr m1" and tail: "spec_run pipeline m1 es = Inr m'"
    by (auto split: sum.splits)
  from fr [OF step ne] Cons.IH [OF tail rest] show ?case by simp
qed

lemma numeric_run_keeps:
  "spec_run add_pipeline_numeric m es = Inr m' \<Longrightarrow>
   inputs m' = inputs m \<and> features_specs m' = features_specs m \<and>
   outputs_categorical m' = outputs_categorical m"
proof (induction es arbitrary: m)
  case Nil
  then show ?case by simp
next
  case (Cons e es)
  obtain n' st' where e: "e = (n', st')" by (cases e)
  from Cons.prems e obtain i m1 where
    step: "add_pipeline_numeric m n' i st' = Inr m1" and
    tail: "spec_run add_pipeline_numeric m1 es = Inr m'"
    by (auto split: sum.splits)
  from Cons.IH [OF tail] numeric_frame [OF step, of n'] show ?case by simp
qed

lemma numeric_step_slot:
  assumes "add_pipeline_numeric m n i st = Inr m1"
  shows "\<exists>f mean variance steps.
           dict_get (features_specs m) n = Some f \<and>
           dict_get st ''mean'' = Some mean \<and>
           dict_get st ''var'' = Some variance \<and>
           numeric_steps f n mean variance = Inr steps \<and>
           dict_get (outputs m1) n = Some (Some (Chain n [i] steps))"
  using assms
  by (auto simp: add_pipeline_numeric_def dict_item_def dict_get_dict_set
      split: sum.splits option.splits)

lemma numeric_run_slot:
  assumes run: "spec_run add_pipeline_numeric m es = Inr m'"
    and dist: "distinct (map fst es)"
    and mem: "(n, st) \<in> set es"
  shows "\<exists>i f mean variance steps.
           dict_get (inputs m) (KStr n) = Some i \<and>
           dict_get (features_specs m) n = Some f \<and>
           dict_get st ''mean'' = Some mean \<and>
           dict_get st ''var'' = Some variance \<and>
           numeric_steps f n mean variance = Inr steps \<and>
           dict_get (outputs m') n = Some (Some (Chain n [i] steps))"
  using run dist mem
proof (induction es arbitrary: m)
  case Nil
  then show ?case by simp
next
  case (Cons e es)
  obtain n' st' where e: "e = (n', st')" by (cases e)
  from Cons.prems(1) e obtain i m1 where
    inp: "inputs_item m n' = Inr i" and
    step: "add_pipeline_numeric m n' i st' = Inr m1" and
    tail: "spec_run add_pipeline_numeric m1 es = Inr m'"
    by (auto split: sum.splits)
  from Cons.prems(2) e have dist': "distinct (map fst es)" and fresh: "n' \<notin> fst ` set es"
    by auto
  have same: "inputs m1 = inputs m" "features_specs m1 = features_specs m"
    using numeric_frame [OF step, of n'] by simp_all
  show ?case
  proof (cases "(n, st) \<in> set es")
    case True
    from Cons.IH [OF tail dist' True] show ?thesis
      unfolding same .
  next
    case False
    with Cons.prems(3) e have eq: "n' = n" "st' = st" by auto
    from fresh eq have notin: "n \<notin> fst ` set es" by simp
    have keep: "dict_get (outputs m') n = dict_get (outputs m1) n \<and>
                dict_get (outputs_categorical m') n = dict_get (outputs_categorical m1) n"
    proof (rule spec_run_frame [OF _ tail notin])
      fix m0 n2 i2 st2 m2
      assume "add_pipeline_numeric m0 n2 i2 st2 = Inr m2" and "n2 \<noteq> n"
      with numeric_frame [of m0 n2 i2 st2 m2 n]
      show "dict_get (outputs m2) n = dict_get (outputs m0) n \<and>
            dict_get (outputs_categorical m2) n = dict_get (outputs_categorical m0) n"
        by simp
    qed
    from inp eq have i: "dict_get (inputs m) (KStr n) = Some i"
      by (simp add: inputs_item_def split: option.splits)
    from numeric_step_slot [OF step [unfolded eq]] keep i show ?thesis
      by auto
  qed
qed

lemma setup_input_keeps:
  "features_specs (setup_input m n st) = features_specs m \<and>
   outputs (setup_input m n st) = outputs m \<and>
   outputs_categorical (setup_input m n st) = outputs_categorical m"
  by (simp add: setup_input_def add_input_column_def add_input_signature_def Let_def)

lemma parallel_setup_inputs_keeps:
  "features_specs (parallel_setup_inputs m fd) = features_specs m \<and>
   outputs (parallel_setup_inputs m fd) = outputs m \<and>
   outputs_categorical (parallel_setup_inputs m fd) = outputs_categorical m"
proof (induction fd arbitrary: m)
  case Nil
  show ?case by simp
next
  case (Cons e fd)
  obtain n st where e: "e = (n, st)" by (cases e)
  show ?case
    unfolding e using Cons.IH [of "setup_input m n st"] setup_input_keeps [of m n st]
    by simp
qed

lemma parallel_setup_inputs_entry:
  assumes "distinct (map fst fd)" and "(n, st) \<in> set fd"
  shows "dict_get (inputs (parallel_setup_inputs m fd)) (KStr n)
           = Some (Input (KStr n) [1]
                    (case dict_get st ''dtype'' of None \<Rightarrow> PDTypeV tf_string | Some d \<Rightarrow> d))"
  using assms
proof (induction fd arbitrary: m)
  case Nil
  then show ?case by simp
next
  case (Cons e fd)
  obtain n' st' where e: "e = (n', st')" by (cases e)
  show ?case
  proof (cases "(n, st) \<in> set fd")
    case True
    with Cons.prems e have "distinct (map fst fd)" by simp
    from Cons.IH [OF this True, of "setup_input m n' st'"] e
    show ?thesis by simp
  next
    case False
    with Cons.prems e have eq: "n' = n" "st' = st" by auto
    from Cons.prems(1) e eq have notin: "n \<notin> fst ` set fd" by simp
    have here:
      "dict_get (inputs (setup_input m n st)) (KStr n)
         = Some (Input (KStr n) [1]
                  (case dict_get st ''dtype'' of None \<Rightarrow> PDTypeV tf_string | Some d \<Rightarrow> d))"
      by (simp add: setup_input_def add_input_column_def add_input_signature_def
          dict_get_dict_set Let_def)
    from parallel_setup_inputs_other [OF notin, of "setup_input m n st"] here e eq
    show ?thesis by simp
  qed
qed

lemma spec_group_subset:
  "set (spec_group tfs dfs k fd) \<subseteq> set fd"
  by (auto simp: spec_group_def)

lemma spec_group_fresh:
  assumes dist: "distinct (map fst fd)" and mem: "(n, st) \<in> set fd"
    and other: "spec_kind tfs dfs (n, st) \<noteq> Some k"
  shows "n \<notin> fst ` set (spec_group tfs dfs k fd)"
proof
  assume "n \<in> fst ` set (spec_group tfs dfs k fd)"
  then obtain st' where in_g: "(n, st') \<in> set (spec_group tfs dfs k fd)" by force
  then have "(n, st') \<in> set fd" and kind: "spec_kind tfs dfs (n, st') = Some k"
    by (auto simp: spec_group_def)
  with dist mem have "st' = st" by (meson eq_key_imp_eq_value)
  with kind other show False by simp
qed

lemma mean_built_by_numeric_pipeline:
  assumes run: "process_features_parallel ext m fd = Inr m'"
    and dist: "distinct (map fst fd)"
    and mem: "(n, st) \<in> set fd"
    and mean: "dict_contains st ''mean''"
  shows "\<exists>f mean variance steps.
           dict_get (features_specs m) n = Some f \<and>
           dict_get st ''mean'' = Some mean \<and>
           dict_get st ''var'' = Some variance \<and>
           numeric_steps f n mean variance = Inr steps \<and>
           dict_get (outputs m') n =
             Some (Some (Chain n
               [Input (KStr n) [1]
                  (case dict_get st ''dtype'' of None \<Rightarrow> PDTypeV tf_string | Some d \<Rightarrow> d)]
               steps)) \<and>
           dict_get (outputs_categorical m') n = dict_get (outputs_categorical m) n"
proof -
  let ?tfs = "text_features m" and ?dfs = "date_features m"
  let ?m0 = "parallel_setup_inputs m fd"
  have kind: "spec_kind ?tfs ?dfs (n, st) = Some ''numeric''"
    using mean by (simp add: spec_kind_def)
  from run obtain m1 m2 m3 where
    r1: "spec_run add_pipeline_numeric ?m0 (spec_group ?tfs ?dfs ''numeric'' fd) = Inr m1" and
    r2: "spec_run (add_pipeline_categorical ext) m1 (spec_group ?tfs ?dfs ''categorical'' fd)
           = Inr m2" and
    r3: "spec_run add_pipeline_text m2 (spec_group ?tfs ?dfs ''text'' fd) = Inr m3" and
    r4: "spec_run (\<lambda>m0 n i st. add_pipeline_date m0 n i) m3 (spec_group ?tfs ?dfs ''date'' fd)
           = Inr m'"
    unfolding process_features_parallel_spec_run by (auto split: sum.splits)
  have in_num: "(n, st) \<in> set (spec_group ?tfs ?dfs ''numeric'' fd)"
    using mem kind by (simp add: spec_group_def)
  have dist_num: "distinct (map fst (spec_group ?tfs ?dfs ''numeric'' fd))"
    unfolding spec_group_def using dist by (rule distinct_map_filter)
  have f2: "n \<notin> fst ` set (spec_group ?tfs ?dfs ''categorical'' fd)"
    by (rule spec_group_fresh [OF dist mem]) (simp add: kind)
  have f3: "n \<notin> fst ` set (spec_group ?tfs ?dfs ''text'' fd)"
    by (rule spec_group_fresh [OF dist mem]) (simp add: kind)
  have f4: "n \<notin> fst ` set (spec_group ?tfs ?dfs ''date'' fd)"
    by (rule spec_group_fresh [OF dist mem]) (simp add: kind)
  have k2: "dict_get (outputs m2) n = dict_get (outputs m1) n \<and>
            dict_get (outputs_categorical m2) n = dict_get (outputs_categorical m1) n"
  proof (rule spec_run_frame [OF _ r2 f2])
    fix m0 n2 i2 st2 ma
    assume "add_pipeline_categorical ext m0 n2 i2 st2 = Inr ma" and "n2 \<noteq> n"
    with categorical_frame [of ext m0 n2 i2 st2 ma n]
    show "dict_get (outputs ma) n = dict_get (outputs m0) n \<and>
          dict_get (outputs_categorical ma) n = dict_get (outputs_categorical m0) n"
      by simp
  qed
  have k3: "dict_get (outputs m3) n = dict_get (outputs m2) n \<and>
            dict_get (outputs_categorical m3) n = dict_get (outputs_categorical m2) n"
  proof (rule spec_run_frame [OF _ r3 f3])
    fix m0 n2 i2 st2 ma
    assume "add_pipeline_text m0 n2 i2 st2 = Inr ma" and "n2 \<noteq> n"
    with text_frame [of m0 n2 i2 st2 ma n]
    show "dict_get (outputs ma) n = dict_get (outputs m0) n \<and>
          dict_get (outputs_categorical ma) n = dict_get (outputs_categorical m0) n"
      by simp
  qed
  have k4: "dict_get (outputs m') n = dict_get (outputs m3) n \<and>
            dict_get (outputs_categorical m') n = dict_get (outputs_categorical m3) n"
  proof (rule spec_run_frame [OF _ r4 f4])
    fix m0 n2 i2 st2 ma
    assume "add_pipeline_date m0 n2 i2 = Inr ma" and "n2 \<noteq> n"
    with date_frame [of m0 n2 i2 ma n]
    show "dict_get (outputs ma) n = dict_get (outputs m0) n \<and>
          dict_get (outputs_categorical ma) n = dict_get (outputs_categorical m0) n"
      by simp
  qed
  from numeric_run_slot [OF r1 dist_num in_num] obtain i f mean variance steps where
    s: "dict_get (inputs ?m0) (KStr n) = Some i"
       "dict_get (features_specs ?m0) n = Some f"
       "dict_get st ''mean'' = Some mean"
       "dict_get st ''var'' = Some variance"
       "numeric_steps f n mean variance = Inr steps"
       "dict_get (outputs m1) n = Some (Some (Chain n [i] steps))"
    by blast
  from s(1) parallel_setup_inputs_entry [OF dist mem, of m] have
    i: "i = Input (KStr n) [1]
              (case dict_get st ''dtype'' of None \<Rightarrow> PDTypeV tf_string | Some d \<Rightarrow> d)"
    by simp
  from numeric_run_keeps [OF r1] parallel_setup_inputs_keeps [of m fd] have
    c1: "outputs_categorical m1 = outputs_categorical m" by simp
  from s(2) parallel_setup_inputs_keeps [of m fd] have
    f: "dict_get (features_specs m) n = Some f" by simp
  from f s(3) s(4) s(5) s(6) i k2 k3 k4 c1 show ?thesis
    by auto
qed

text \<open>
  C10. \<^verbatim>\<open>_process_features_parallel\<close> builds the features of a statistics dictionary
  in the four kind groups of the fixed precedence numeric, categorical, text, date. An
  entry is in at most one group; an entry whose statistics hold both a mean and a
  vocabulary is in the numeric group and in no other; and a build step that succeeds
  writes one slot, keyed by the feature's name, of one of the two output maps and leaves
  the other map as it was. The numeric group is built by \<^verbatim>\<open>_add_pipeline_numeric\<close>, the
  categorical group by \<^verbatim>\<open>_add_pipeline_categorical\<close>, the text group by
  \<^verbatim>\<open>_add_pipeline_text\<close> and the date group by \<^verbatim>\<open>_add_pipeline_date\<close>, in this order,
  on the placeholders of \<^verbatim>\<open>_parallel_setup_inputs\<close>. When the call succeeds on a
  dictionary (distinct names), a feature whose statistics hold a mean has, under its
  name, the chain of the numeric steps of its descriptor on its placeholder in
  \<^verbatim>\<open>outputs\<close>, and its slot of \<^verbatim>\<open>outputs_categorical\<close> is as before the call.
\<close>

theorem kind_groups_by_precedence:
  "process_features_parallel ext m fd =
     process_groups ext (parallel_setup_inputs m fd)
       [(spec_group (text_features m) (date_features m) ''numeric'' fd, ''numeric''),
        (spec_group (text_features m) (date_features m) ''categorical'' fd, ''categorical''),
        (spec_group (text_features m) (date_features m) ''text'' fd, ''text''),
        (spec_group (text_features m) (date_features m) ''date'' fd, ''date'')] \<and>
   (\<forall>e \<in> set fd. \<forall>k k'.
      e \<in> set (spec_group (text_features m) (date_features m) k fd) \<and>
      e \<in> set (spec_group (text_features m) (date_features m) k' fd) \<longrightarrow> k = k') \<and>
   (\<forall>e \<in> set fd.
      dict_contains (snd e) ''mean'' \<and> dict_contains (snd e) ''vocab'' \<longrightarrow>
      e \<in> set (spec_group (text_features m) (date_features m) ''numeric'' fd) \<and>
      e \<notin> set (spec_group (text_features m) (date_features m) ''categorical'' fd) \<and>
      e \<notin> set (spec_group (text_features m) (date_features m) ''text'' fd) \<and>
      e \<notin> set (spec_group (text_features m) (date_features m) ''date'' fd)) \<and>
   (\<forall>kind m0 m' n st.
      build_feature ext kind m0 (n, st) = Inr m' \<longrightarrow>
      (\<exists>t. outputs m' = dict_set (outputs m0) n (Some t) \<and>
           outputs_categorical m' = outputs_categorical m0) \<or>
      (\<exists>t. outputs_categorical m' = dict_set (outputs_categorical m0) n t \<and>
           outputs m' = outputs m0)) \<and>
   process_features_parallel ext m fd =
     (case spec_run add_pipeline_numeric (parallel_setup_inputs m fd)
             (spec_group (text_features m) (date_features m) ''numeric'' fd) of
        Inl e \<Rightarrow> Inl e
      | Inr m1 \<Rightarrow>
     (case spec_run (add_pipeline_categorical ext) m1
             (spec_group (text_features m) (date_features m) ''categorical'' fd) of
        Inl e \<Rightarrow> Inl e
      | Inr m2 \<Rightarrow>
     (case spec_run add_pipeline_text m2
             (spec_group (text_features m) (date_features m) ''text'' fd) of
        Inl e \<Rightarrow> Inl e
      | Inr m3 \<Rightarrow>
          spec_run (\<lambda>m0 n i st. add_pipeline_date m0 n i) m3
            (spec_group (text_features m) (date_features m) ''date'' fd)))) \<and>
   (\<forall>n st m'.
      distinct (map fst fd) \<and> (n, st) \<in> set fd \<and> dict_contains st ''mean'' \<and>
      process_features_parallel ext m fd = Inr m' \<longrightarrow>
      (\<exists>f mean variance steps.
         dict_get (features_specs m) n = Some f \<and>
         dict_get st ''mean'' = Some mean \<and>
         dict_get st ''var'' = Some variance \<and>
         numeric_steps f n mean variance = Inr steps \<and>
         dict_get (outputs m') n =
           Some (Some (Chain n
             [Input (KStr n) [1]
                (case dict_get st ''dtype'' of None \<Rightarrow> PDTypeV tf_string | Some d \<Rightarrow> d)]
             steps)) \<and>
         dict_get (outputs_categorical m') n = dict_get (outputs_categorical m) n))"
proof (intro conjI)
  show "process_features_parallel ext m fd =
     process_groups ext (parallel_setup_inputs m fd)
       [(spec_group (text_features m) (date_features m) ''numeric'' fd, ''numeric''),
        (spec_group (text_features m) (date_features m) ''categorical'' fd, ''categorical''),
        (spec_group (text_features m) (date_features m) ''text'' fd, ''text''),
        (spec_group (text_features m) (date_features m) ''date'' fd, ''date'')]"
    by (simp add: process_features_parallel_def group_features_filter)
next
  show "\<forall>e \<in> set fd. \<forall>k k'.
      e \<in> set (spec_group (text_features m) (date_features m) k fd) \<and>
      e \<in> set (spec_group (text_features m) (date_features m) k' fd) \<longrightarrow> k = k'"
    by (auto simp: spec_group_def)
next
  show "\<forall>e \<in> set fd.
      dict_contains (snd e) ''mean'' \<and> dict_contains (snd e) ''vocab'' \<longrightarrow>
      e \<in> set (spec_group (text_features m) (date_features m) ''numeric'' fd) \<and>
      e \<notin> set (spec_group (text_features m) (date_features m) ''categorical'' fd) \<and>
      e \<notin> set (spec_group (text_features m) (date_features m) ''text'' fd) \<and>
      e \<notin> set (spec_group (text_features m) (date_features m) ''date'' fd)"
    by (auto simp: spec_group_def spec_kind_def)
next
  show "\<forall>kind m0 m' n st.
      build_feature ext kind m0 (n, st) = Inr m' \<longrightarrow>
      (\<exists>t. outputs m' = dict_set (outputs m0) n (Some t) \<and>
           outputs_categorical m' = outputs_categorical m0) \<or>
      (\<exists>t. outputs_categorical m' = dict_set (outputs_categorical m0) n t \<and>
           outputs m' = outputs m0)"
    using build_feature_one_slot by blast
next
  show "process_features_parallel ext m fd =
     (case spec_run add_pipeline_numeric (parallel_setup_inputs m fd)
             (spec_group (text_features m) (date_features m) ''numeric'' fd) of
        Inl e \<Rightarrow> Inl e
      | Inr m1 \<Rightarrow>
     (case spec_run (add_pipeline_categorical ext) m1
             (spec_group (text_features m) (date_features m) ''categorical'' fd) of
        Inl e \<Rightarrow> Inl e
      | Inr m2 \<Rightarrow>
     (case spec_run add_pipeline_text m2
             (spec_group (text_features m) (date_features m) ''text'' fd) of
        Inl e \<Rightarrow> Inl e
      | Inr m3 \<Rightarrow>
          spec_run (\<lambda>m0 n i st. add_pipeline_date m0 n i) m3
            (spec_group (text_features m) (date_features m) ''date'' fd))))"
    by (rule process_features_parallel_spec_run)
next
  show "\<forall>n st m'.
      distinct (map fst fd) \<and> (n, st) \<in> set fd \<and> dict_contains st ''mean'' \<and>
      process_features_parallel ext m fd = Inr m' \<longrightarrow>
      (\<exists>f mean variance steps.
         dict_get (features_specs m) n = Some f \<and>
         dict_get st ''mean'' = Some mean \<and>
         dict_get st ''var'' = Some variance \<and>
         numeric_steps f n mean variance = Inr steps \<and>
         dict_get (outputs m') n =
           Some (Some (Chain n
             [Input (KStr n) [1]
                (case dict_get st ''dtype'' of None \<Rightarrow> PDTypeV tf_string | Some d \<Rightarrow> d)]
             steps)) \<and>
         dict_get (outputs_categorical m') n = dict_get (outputs_categorical m) n)"
    using mean_built_by_numeric_pipeline by blast
qed

theorem kind_groups_by_precedence_witness:
  "spec_group [] [] ''numeric'' [(''age'', both_stats)] = [(''age'', both_stats)] \<and>
   spec_group [] [] ''categorical'' [(''age'', both_stats)] = [] \<and>
   map_sum id (\<lambda>m'. (dict_keys (outputs m'), dict_keys (outputs_categorical m')))
     (process_features_parallel ext0
        (blank_model\<lparr> features_specs := [(''age'', float_feature FLOAT)] \<rparr>)
        [(''age'', both_stats)])
   = Inr ([''age''], []) \<and>
   (\<exists>m'. process_features_parallel ext0
            (blank_model\<lparr> features_specs := [(''age'', float_feature FLOAT)] \<rparr>)
            [(''age'', both_stats)] = Inr m' \<and>
         dict_get (outputs m') ''age'' =
           Some (Some (Chain ''age'' [Input (KStr ''age'') [1] (PDTypeV tf_string)]
             [Step (LayerClassName ''Normalization'') ''norm_age''
                [(''mean'', PFloat 0), (''variance'', PFloat 1)]])) \<and>
         dict_get (outputs_categorical m') ''age'' = None)"
proof -
  let ?M = "blank_model\<lparr> features_specs := [(''age'', float_feature FLOAT)] \<rparr>"
  let ?fd = "[(''age'', both_stats)]"
  note t = kind_groups_by_precedence [of ext0 ?M ?fd]
  have tf: "text_features ?M = []" and df: "date_features ?M = []"
    by (simp_all add: blank_model_def)
  have g: "spec_group [] [] ''numeric'' ?fd = ?fd" "spec_group [] [] ''categorical'' ?fd = []"
    "spec_group [] [] ''text'' ?fd = []" "spec_group [] [] ''date'' ?fd = []"
    by (simp_all add: spec_group_def spec_kind_def both_stats_def dict_contains_def
        dict_keys_def)
  have run: "process_features_parallel ext0 ?M ?fd =
      process_groups ext0 (parallel_setup_inputs ?M ?fd)
        [(?fd, ''numeric''), ([], ''categorical''), ([], ''text''), ([], ''date'')]"
    using t [THEN conjunct1] by (simp only: tf df g)
  have out: "map_sum id (\<lambda>m'. (dict_keys (outputs m'), dict_keys (outputs_categorical m')))
      (process_features_parallel ext0 ?M ?fd) = Inr ([''age''], [])"
    unfolding run
    by (simp add: both_stats_def blank_model_def float_feature_def new_feature_def
        build_defs)
  then obtain m' where r: "process_features_parallel ext0 ?M ?fd = Inr m'"
    by (cases "process_features_parallel ext0 ?M ?fd") auto
  have d: "distinct (map fst ?fd)" "(''age'', both_stats) \<in> set ?fd"
    "dict_contains both_stats ''mean''"
    by (simp_all add: both_stats_def dict_contains_def dict_keys_def)
  from t have six: "\<forall>n st m'.
      distinct (map fst ?fd) \<and> (n, st) \<in> set ?fd \<and> dict_contains st ''mean'' \<and>
      process_features_parallel ext0 ?M ?fd = Inr m' \<longrightarrow>
      (\<exists>f mean variance steps.
         dict_get (features_specs ?M) n = Some f \<and>
         dict_get st ''mean'' = Some mean \<and>
         dict_get st ''var'' = Some variance \<and>
         numeric_steps f n mean variance = Inr steps \<and>
         dict_get (outputs m') n =
           Some (Some (Chain n
             [Input (KStr n) [1]
                (case dict_get st ''dtype'' of None \<Rightarrow> PDTypeV tf_string | Some d \<Rightarrow> d)]
             steps)) \<and>
         dict_get (outputs_categorical m') n = dict_get (outputs_categorical ?M) n)"
    by (elim conjE)
  from six d r obtain f mean variance steps where
    s: "dict_get (features_specs ?M) ''age'' = Some f"
       "dict_get both_stats ''mean'' = Some mean"
       "dict_get both_stats ''var'' = Some variance"
       "numeric_steps f ''age'' mean variance = Inr steps"
       "dict_get (outputs m') ''age'' =
          Some (Some (Chain ''age''
            [Input (KStr ''age'') [1]
               (case dict_get both_stats ''dtype'' of
                  None \<Rightarrow> PDTypeV tf_string | Some d \<Rightarrow> d)]
            steps))"
       "dict_get (outputs_categorical m') ''age'' = dict_get (outputs_categorical ?M) ''age''"
    by blast
  from s(1) have f: "f = float_feature FLOAT" by simp
  from s(2) s(3) have mv: "mean = PFloat 0" "variance = PFloat 1"
    by (simp_all add: both_stats_def)
  from s(4) have steps: "steps = [Step (LayerClassName ''Normalization'') ''norm_age''
                [(''mean'', PFloat 0), (''variance'', PFloat 1)]]"
    unfolding f mv
    by (simp add: numeric_steps_def normalization_def float_feature_def new_feature_def)
  have slot: "dict_get (outputs m') ''age'' =
           Some (Some (Chain ''age'' [Input (KStr ''age'') [1] (PDTypeV tf_string)]
             [Step (LayerClassName ''Normalization'') ''norm_age''
                [(''mean'', PFloat 0), (''variance'', PFloat 1)]]))"
    using s(5) unfolding steps by (simp add: both_stats_def)
  have cat: "dict_get (outputs_categorical m') ''age'' = None"
    using s(6) by (simp add: blank_model_def)
  from r slot cat have ex: "\<exists>m'. process_features_parallel ext0 ?M ?fd = Inr m' \<and>
         dict_get (outputs m') ''age'' =
           Some (Some (Chain ''age'' [Input (KStr ''age'') [1] (PDTypeV tf_string)]
             [Step (LayerClassName ''Normalization'') ''norm_age''
                [(''mean'', PFloat 0), (''variance'', PFloat 1)]])) \<and>
         dict_get (outputs_categorical m') ''age'' = None"
    by blast
  from g(1) g(2) out ex show ?thesis
    by (intro conjI)
qed

end
